theory Spec2Isabelle
  imports Complex_Main "HOL-Library.Multiset"
begin

section \<open>The tables of listings/models.py\<close>

text \<open>
  A row of each table is a record. Primary keys (the UUIDs of Listing, Booking and Review,
  the key of the user table) are natural numbers; a timestamp is an integer, a date is
  the integer number of its day. The user model is the project's
  \<^verbatim>\<open>AUTH_USER_MODEL\<close>; the fields kept are those the seed command and the
  serializers read or write. The type \<open>'p\<close> is the type of prices: the seed command
  draws them with \<^verbatim>\<open>random.uniform\<close>, so nothing is assumed of it; what a
  \<^verbatim>\<open>DecimalField\<close> column keeps of such a value is said where rows are inserted.
  Fields that two models share (\<^verbatim>\<open>property\<close>, \<^verbatim>\<open>user\<close>,
  \<^verbatim>\<open>created_at\<close>) carry the model's name as a prefix.
\<close>

record user =
  uid :: nat
  username :: string
  email :: string
  first_name :: string
  last_name :: string
  role :: string
  is_superuser :: bool

record 'p listing =
  listing_id :: nat
  host :: nat
  title :: string
  description :: string
  address :: string
  city :: string
  country :: string
  price_per_night :: 'p
  property_type :: string
  num_bedrooms :: int
  num_bathrooms :: int
  max_guests :: int
  amenities :: string
  listing_created_at :: int
  updated_at :: int

record 'p booking =
  booking_id :: nat
  booking_property :: nat
  booking_user :: nat
  check_in_date :: int
  check_out_date :: int
  total_price :: 'p
  status :: string
  booked_at :: int

record review =
  review_id :: nat
  review_property :: nat
  review_user :: nat
  rating :: int
  comment :: string
  review_created_at :: int

datatype style = NOTICE | WARNING | SUCCESS

datatype model = User | Listing | Booking | Review

text \<open>
  The state a run of the command works on: the four tables (rows in insertion order), the
  calls of \<^verbatim>\<open>delete()\<close> on a queryset made so far (oldest first: the model of the
  queryset, and how many rows of that model's table the queryset held when it was deleted),
  the lines written to \<^verbatim>\<open>self.stdout\<close>, and what the run reads from outside: the
  raw values \<^verbatim>\<open>random\<close> will return, the prices \<^verbatim>\<open>random.uniform\<close>
  will return, and the readings of the clock. Each of the three is the sequence of values
  still to come; a read takes element 0 and shifts the sequence.
\<close>

record 'p world =
  users :: "user list"
  listings :: "'p listing list"
  bookings :: "'p booking list"
  reviews :: "review list"
  deleted :: "(model \<times> nat) list"
  out :: "(style \<times> string) list"
  rand :: "nat \<Rightarrow> nat"
  unif :: "nat \<Rightarrow> 'p"
  clock :: "nat \<Rightarrow> int"

datatype error = IntegrityError | MultipleObjectsReturned | DoesNotExist

text \<open>
  A failed operation raises: the result is \<open>Inl\<close> of the exception and of the state
  at that moment (the command runs outside a transaction, so what was written stays).
\<close>

type_synonym ('p, 'a) result = "(error \<times> 'p world) + 'a"

definition bind :: "('e + 'a) \<Rightarrow> ('a \<Rightarrow> 'e + 'b) \<Rightarrow> 'e + 'b" where
  "bind m f = (case m of Inl e \<Rightarrow> Inl e | Inr a \<Rightarrow> f a)"

fun foldM :: "('a \<Rightarrow> 's \<Rightarrow> 'e + 's) \<Rightarrow> 'a list \<Rightarrow> 's \<Rightarrow> 'e + 's" where
  "foldM f [] s = Inr s"
| "foldM f (x # xs) s = (case f x s of Inl e \<Rightarrow> Inl e | Inr s' \<Rightarrow> foldM f xs s')"

definition stdout_write :: "style \<Rightarrow> string \<Rightarrow> 'p world \<Rightarrow> 'p world" where
  "stdout_write sty msg w = w\<lparr>out := out w @ [(sty, msg)]\<rparr>"

subsection \<open>Primary keys and the clock\<close>

text \<open>
  \<^verbatim>\<open>uuid.uuid4\<close> and the user table's key generator are modelled as giving a
  key that no row of the table has: one more than the largest key in use.
\<close>

definition fresh :: "nat list \<Rightarrow> nat" where
  "fresh ks = Suc (fold max ks 0)"

text \<open>
  What a run reads from outside is read by position: \<open>clock w k\<close> is the reading of
  the clock \<open>k\<close> reads from now, and \<open>skip_clock n\<close> moves past \<open>n\<close> readings
  (likewise for the raw random values and the prices).
\<close>

definition skip_clock :: "nat \<Rightarrow> 'p world \<Rightarrow> 'p world" where
  "skip_clock n w = w\<lparr>clock := (\<lambda>k. clock w (k + n))\<rparr>"

definition skip_rand :: "nat \<Rightarrow> 'p world \<Rightarrow> 'p world" where
  "skip_rand n w = w\<lparr>rand := (\<lambda>k. rand w (k + n))\<rparr>"

definition skip_unif :: "nat \<Rightarrow> 'p world \<Rightarrow> 'p world" where
  "skip_unif n w = w\<lparr>unif := (\<lambda>k. unif w (k + n))\<rparr>"

subsection \<open>Deleting rows: on_delete=CASCADE\<close>

text \<open>
  Booking.property and Review.property are foreign keys to Listing with
  \<^verbatim>\<open>on_delete=models.CASCADE\<close>; Listing.host, Booking.user and Review.user are
  foreign keys to the user model with the same option. Deleting a set of listings
  deletes the bookings and reviews that reference one of them; deleting a set of users
  deletes their listings (with those listings' bookings and reviews), their bookings and
  their reviews.
\<close>

definition delete_listings :: "('p listing \<Rightarrow> bool) \<Rightarrow> 'p world \<Rightarrow> 'p world" where
  "delete_listings sel w =
     (let gone = map listing_id (filter sel (listings w)) in
      w\<lparr>listings := filter (\<lambda>l. \<not> sel l) (listings w),
        bookings := filter (\<lambda>b. booking_property b \<notin> set gone) (bookings w),
        reviews := filter (\<lambda>r. review_property r \<notin> set gone) (reviews w)\<rparr>)"

definition delete_listing :: "nat \<Rightarrow> 'p world \<Rightarrow> 'p world" where
  "delete_listing k w = delete_listings (\<lambda>l. listing_id l = k) w"

definition delete_bookings :: "('p booking \<Rightarrow> bool) \<Rightarrow> 'p world \<Rightarrow> 'p world" where
  "delete_bookings sel w = w\<lparr>bookings := filter (\<lambda>b. \<not> sel b) (bookings w)\<rparr>"

definition delete_reviews :: "(review \<Rightarrow> bool) \<Rightarrow> 'p world \<Rightarrow> 'p world" where
  "delete_reviews sel w = w\<lparr>reviews := filter (\<lambda>r. \<not> sel r) (reviews w)\<rparr>"

definition delete_users :: "(user \<Rightarrow> bool) \<Rightarrow> 'p world \<Rightarrow> 'p world" where
  "delete_users sel w =
     (let gone = map uid (filter sel (users w));
          w1 = delete_listings (\<lambda>l. host l \<in> set gone) w;
          w2 = delete_bookings (\<lambda>b. booking_user b \<in> set gone) w1;
          w3 = delete_reviews (\<lambda>r. review_user r \<in> set gone) w2
      in w3\<lparr>users := filter (\<lambda>u. \<not> sel u) (users w3)\<rparr>)"

text \<open>
  \<^verbatim>\<open>Model.objects.all().delete()\<close> and
  \<^verbatim>\<open>User.objects.filter(is_superuser=False).delete()\<close>: the rows of the queryset
  are deleted, with the cascade, and the call is recorded.
\<close>

definition delete_all_reviews :: "'p world \<Rightarrow> 'p world" where
  "delete_all_reviews w =
     (delete_reviews (\<lambda>r. True) w)\<lparr>deleted := deleted w @ [(Review, length (reviews w))]\<rparr>"

definition delete_all_bookings :: "'p world \<Rightarrow> 'p world" where
  "delete_all_bookings w =
     (delete_bookings (\<lambda>b. True) w)\<lparr>deleted := deleted w @ [(Booking, length (bookings w))]\<rparr>"

definition delete_all_listings :: "'p world \<Rightarrow> 'p world" where
  "delete_all_listings w =
     (delete_listings (\<lambda>l. True) w)\<lparr>deleted := deleted w @ [(Listing, length (listings w))]\<rparr>"

definition delete_non_superusers :: "'p world \<Rightarrow> 'p world" where
  "delete_non_superusers w =
     (delete_users (\<lambda>u. \<not> is_superuser u) w)
       \<lparr>deleted := deleted w @ [(User, length (filter (\<lambda>u. \<not> is_superuser u) (users w)))]\<rparr>"

text \<open>No booking and no review references a listing that is not in the table.\<close>

definition no_dangling_listing :: "'p world \<Rightarrow> bool" where
  "no_dangling_listing w \<longleftrightarrow>
     list_all (\<lambda>b. booking_property b \<in> listing_id ` set (listings w)) (bookings w) \<and>
     list_all (\<lambda>r. review_property r \<in> listing_id ` set (listings w)) (reviews w)"

definition empty_world :: "'p \<Rightarrow> 'p world" where
  "empty_world p =
     \<lparr>users = [], listings = [], bookings = [], reviews = [], deleted = [], out = [],
      rand = (\<lambda>k. 0), unif = (\<lambda>k. p), clock = (\<lambda>k. 0)\<rparr>"

section \<open>What the schema checks on insertion\<close>

text \<open>
  \<^verbatim>\<open>Model.objects.create\<close> inserts one row and returns the object. The key and
  the \<^verbatim>\<open>auto_now_add\<close>/\<^verbatim>\<open>auto_now\<close> timestamps are set by the
  insertion, whatever the row passed in holds for them (Listing reads the clock twice,
  for created\_at and updated\_at). The database raises \<^verbatim>\<open>IntegrityError\<close>
  when a foreign key has no target row and, for Review, when
  \<^verbatim>\<open>unique_together = ('property', 'user')\<close> is violated.

  Listing.price\_per\_night and Booking.total\_price are declared
  \<^verbatim>\<open>DecimalField(max_digits=10, decimal_places=2)\<close>: the row keeps the value
  converted to two decimal places, \<open>dec\<close> standing for that conversion, while the
  object that \<^verbatim>\<open>create\<close> returns keeps the value it was given.
\<close>

definition stored_listing :: "('p \<Rightarrow> 'p) \<Rightarrow> 'p listing \<Rightarrow> 'p listing" where
  "stored_listing dec l = l\<lparr>price_per_night := dec (price_per_night l)\<rparr>"

definition stored_booking :: "('p \<Rightarrow> 'p) \<Rightarrow> 'p booking \<Rightarrow> 'p booking" where
  "stored_booking dec b = b\<lparr>total_price := dec (total_price b)\<rparr>"

definition new_listing :: "'p listing \<Rightarrow> 'p world \<Rightarrow> 'p listing" where
  "new_listing l0 w =
     l0\<lparr>listing_id := fresh (map listing_id (listings w)),
        listing_created_at := clock w 0, updated_at := clock w 1\<rparr>"

definition create_listing ::
  "('p \<Rightarrow> 'p) \<Rightarrow> 'p listing \<Rightarrow> 'p world \<Rightarrow> ('p, 'p listing \<times> 'p world) result" where
  "create_listing dec l0 w =
     (if \<not> list_ex (\<lambda>u. uid u = host l0) (users w) then Inl (IntegrityError, skip_clock 2 w)
      else Inr (new_listing l0 w,
                (skip_clock 2 w)\<lparr>listings := listings w @ [stored_listing dec (new_listing l0 w)]\<rparr>))"

definition new_booking :: "'p booking \<Rightarrow> 'p world \<Rightarrow> 'p booking" where
  "new_booking b0 w = b0\<lparr>booking_id := fresh (map booking_id (bookings w)), booked_at := clock w 0\<rparr>"

definition create_booking ::
  "('p \<Rightarrow> 'p) \<Rightarrow> 'p booking \<Rightarrow> 'p world \<Rightarrow> ('p, 'p booking \<times> 'p world) result" where
  "create_booking dec b0 w =
     (if \<not> list_ex (\<lambda>l. listing_id l = booking_property b0) (listings w)
      then Inl (IntegrityError, skip_clock 1 w)
      else if \<not> list_ex (\<lambda>u. uid u = booking_user b0) (users w)
      then Inl (IntegrityError, skip_clock 1 w)
      else Inr (new_booking b0 w,
                (skip_clock 1 w)\<lparr>bookings := bookings w @ [stored_booking dec (new_booking b0 w)]\<rparr>))"

text \<open>\<^verbatim>\<open>Review.objects.filter(property=..., user=...).exists()\<close>\<close>

definition review_exists :: "nat \<Rightarrow> nat \<Rightarrow> 'p world \<Rightarrow> bool" where
  "review_exists k u w = list_ex (\<lambda>r. review_property r = k \<and> review_user r = u) (reviews w)"

definition new_review :: "review \<Rightarrow> 'p world \<Rightarrow> review" where
  "new_review r0 w = r0\<lparr>review_id := fresh (map review_id (reviews w)), review_created_at := clock w 0\<rparr>"

definition create_review :: "review \<Rightarrow> 'p world \<Rightarrow> ('p, review \<times> 'p world) result" where
  "create_review r0 w =
     (if \<not> list_ex (\<lambda>l. listing_id l = review_property r0) (listings w)
      then Inl (IntegrityError, skip_clock 1 w)
      else if \<not> list_ex (\<lambda>u. uid u = review_user r0) (users w)
      then Inl (IntegrityError, skip_clock 1 w)
      else if review_exists (review_property r0) (review_user r0) w
      then Inl (IntegrityError, skip_clock 1 w)
      else Inr (new_review r0 w, (skip_clock 1 w)\<lparr>reviews := reviews w @ [new_review r0 w]\<rparr>))"

text \<open>
  The user model itself is not among the source files, so its uniqueness constraints are
  a parameter: \<open>uq v u\<close> says that the stored row \<open>v\<close> forbids the insertion of
  \<open>u\<close> (for Django's stock user model, that both have the same username).
  \<^verbatim>\<open>create_user\<close> stores a user that is not a superuser; the password is not
  modelled.
\<close>

definition new_user :: "string \<Rightarrow> string \<Rightarrow> string \<Rightarrow> string \<Rightarrow> string \<Rightarrow> 'p world \<Rightarrow> user" where
  "new_user un em fn sn r w =
     \<lparr>uid = fresh (map uid (users w)), username = un, email = em, first_name = fn,
      last_name = sn, role = r, is_superuser = False\<rparr>"

definition create_user ::
  "(user \<Rightarrow> user \<Rightarrow> bool) \<Rightarrow> string \<Rightarrow> string \<Rightarrow> string \<Rightarrow> string \<Rightarrow> string \<Rightarrow> 'p world
   \<Rightarrow> ('p, user \<times> 'p world) result" where
  "create_user uq un em fn sn r w =
     (if list_ex (\<lambda>v. uq v (new_user un em fn sn r w)) (users w) then Inl (IntegrityError, w)
      else Inr (new_user un em fn sn r w, w\<lparr>users := users w @ [new_user un em fn sn r w]\<rparr>))"

text \<open>\<^verbatim>\<open>User.objects.get(email=...)\<close>: exactly one row, or an exception.\<close>

definition get_user_by_email :: "string \<Rightarrow> 'p world \<Rightarrow> ('p, user) result" where
  "get_user_by_email em w =
     (case filter (\<lambda>u. email u = em) (users w) of
        [] \<Rightarrow> Inl (DoesNotExist, w)
      | [u] \<Rightarrow> Inr u
      | _ \<Rightarrow> Inl (MultipleObjectsReturned, w))"

section \<open>The seed command (listings/management/commands/seed.py)\<close>

subsection \<open>Python's str of an integer, and the random module\<close>

definition digit_char :: "nat \<Rightarrow> char" where
  "digit_char d = ''0123456789'' ! d"

fun str_nat :: "nat \<Rightarrow> string" where
  "str_nat n = (if n < 10 then [digit_char n] else str_nat (n div 10) @ [digit_char (n mod 10)])"

declare str_nat.simps [simp del]

definition str_int :: "int \<Rightarrow> string" where
  "str_int i = (if i < 0 then ''-'' @ str_nat (nat (- i)) else str_nat (nat i))"

text \<open>
  \<^verbatim>\<open>random.choice(xs)\<close> and \<^verbatim>\<open>random.randint(a, b)\<close> each consume one
  raw value \<open>r\<close>; \<open>choice xs r\<close> and \<open>randint a b r\<close> are what they return.
  \<^verbatim>\<open>random.choice\<close> is only ever called on a list that is not empty: the literal
  lists of the command, and the guests under \<^verbatim>\<open>if guests:\<close>.
  \<^verbatim>\<open>random.uniform(50.00, 500.00)\<close> takes the next price, whatever it is.
  In the functions below the draws of one loop body are numbered in the order in which
  Python evaluates them, and the body then moves past all of them.
\<close>

definition choice :: "'a list \<Rightarrow> nat \<Rightarrow> 'a" where
  "choice xs r = xs ! (r mod length xs)"

definition randint :: "int \<Rightarrow> int \<Rightarrow> nat \<Rightarrow> int" where
  "randint a b r = a + int (r mod nat (b - a + 1))"

text \<open>\<^verbatim>\<open>timezone.now().date()\<close>, with the clock counting seconds.\<close>

definition date_of :: "int \<Rightarrow> int" where
  "date_of t = t div 86400"

text \<open>\<^verbatim>\<open>(check_out - check_in).days\<close>\<close>

definition nights_between :: "int \<Rightarrow> int \<Rightarrow> int" where
  "nights_between check_in check_out = check_out - check_in"

record options =
  clear :: bool
  num_users :: int
  num_listings_per_host :: int
  num_bookings_per_listing :: int
  num_reviews_per_listing :: int

definition py_range :: "int \<Rightarrow> nat list" where
  "py_range n = [0..<nat n]"

subsection \<open>The clear phase\<close>

definition clear_existing :: "'p world \<Rightarrow> 'p world" where
  "clear_existing w =
     stdout_write SUCCESS ''Existing data cleared.''
       (delete_non_superusers
         (delete_all_listings
           (delete_all_bookings
             (delete_all_reviews
               (stdout_write WARNING ''Clearing existing data...'' w)))))"

subsection \<open>Users, and the fallback host\<close>

definition user_email :: "nat \<Rightarrow> string" where
  "user_email i = ''user'' @ str_nat i @ ''@example.com''"

definition seed_user ::
  "(user \<Rightarrow> user \<Rightarrow> bool) \<Rightarrow> nat \<Rightarrow> 'p world \<times> user list \<Rightarrow> ('p, 'p world \<times> user list) result" where
  "seed_user uq i s =
     (case s of (w, us) \<Rightarrow>
        if \<not> list_ex (\<lambda>u. email u = user_email i) (users w) then
          (case create_user uq (''user'' @ str_nat i) (user_email i) (''First'' @ str_nat i)
                  (''Last'' @ str_nat i) (choice [''guest'', ''host''] (rand w 0)) (skip_rand 1 w) of
             Inl e \<Rightarrow> Inl e
           | Inr (u, w') \<Rightarrow>
               Inr (stdout_write SUCCESS (''Created user: '' @ email u @ '' ('' @ role u @ '')'') w',
                    us @ [u]))
        else
          (case get_user_by_email (user_email i) w of
             Inl e \<Rightarrow> Inl e
           | Inr u \<Rightarrow>
               Inr (stdout_write WARNING
                      (''User '' @ user_email i @ '' already exists, skipping creation.'') w,
                    us @ [u])))"

definition create_users ::
  "(user \<Rightarrow> user \<Rightarrow> bool) \<Rightarrow> int \<Rightarrow> 'p world \<Rightarrow> ('p, 'p world \<times> user list) result" where
  "create_users uq n w =
     foldM (seed_user uq) (py_range n)
       (stdout_write NOTICE (''Creating '' @ str_int n @ '' sample users...'') w, [])"

text \<open>
  \<^verbatim>\<open>if not hosts:\<close> creates the user auto\_host and appends it to
  \<^verbatim>\<open>hosts\<close> (the list \<^verbatim>\<open>users\<close> is not read again).
\<close>

definition fallback_host ::
  "(user \<Rightarrow> user \<Rightarrow> bool) \<Rightarrow> user list \<Rightarrow> 'p world \<Rightarrow> ('p, 'p world \<times> user list) result" where
  "fallback_host uq hosts w =
     (if hosts = [] then
        (case create_user uq ''auto_host'' ''auto_host@example.com'' ''Auto'' ''Host'' ''host''
                (stdout_write WARNING ''No hosts created. Creating at least one host for listings.'' w) of
           Inl e \<Rightarrow> Inl e
         | Inr (h, w') \<Rightarrow> Inr (w', hosts @ [h]))
      else Inr (w, hosts))"

subsection \<open>Listings\<close>

definition PROPERTY_TYPE_CHOICES :: "(string \<times> string) list" where
  "PROPERTY_TYPE_CHOICES =
     [(''room'', ''Room''), (''mansion'', ''Mansion''), (''countryside'', ''Countryside''),
      (''cabin'', ''Cabin''), (''apartment'', ''Apartment''), (''villa'', ''Villa'')]"

definition cities :: "string list" where
  "cities = [''New York'', ''London'', ''Paris'', ''Tokyo'', ''Sydney'']"

text \<open>The keyword arguments of \<^verbatim>\<open>Listing.objects.create\<close>: eleven draws and one price.\<close>

definition listing_kwargs :: "user \<Rightarrow> nat \<Rightarrow> 'p world \<Rightarrow> 'p listing" where
  "listing_kwargs h i w =
     \<lparr>listing_id = 0, host = uid h,
      title = first_name h @ [CHR 0x27] @ ''s ''
              @ choice [''Cozy Room'', ''Spacious Mansion'', ''Rustic Cabin''] (rand w 0)
              @ '' '' @ str_nat (i + 1),
      description = ''A beautiful '' @ choice [''place'', ''villa'', ''apartment''] (rand w 1)
              @ '' in '' @ choice cities (rand w 2) @ ''.'',
      address = str_int (randint 1 100 (rand w 3)) @ '' Main St'',
      city = choice cities (rand w 4),
      country = choice [''USA'', ''UK'', ''France'', ''Japan'', ''Australia''] (rand w 5),
      price_per_night = unif w 0,
      property_type = choice (map fst PROPERTY_TYPE_CHOICES) (rand w 6),
      num_bedrooms = randint 1 5 (rand w 7),
      num_bathrooms = randint 1 3 (rand w 8),
      max_guests = randint 1 10 (rand w 9),
      amenities = choice [''WiFi, Pool'', ''Gym, Kitchen'', ''Parking, Balcony'', ''Pet-Friendly'']
                    (rand w 10),
      listing_created_at = 0, updated_at = 0\<rparr>"

definition seed_listing ::
  "('p \<Rightarrow> 'p) \<Rightarrow> user \<Rightarrow> nat \<Rightarrow> 'p world \<times> 'p listing list
   \<Rightarrow> ('p, 'p world \<times> 'p listing list) result" where
  "seed_listing dec h i s =
     (case s of (w, ls) \<Rightarrow>
        case create_listing dec (listing_kwargs h i w) (skip_unif 1 (skip_rand 11 w)) of
          Inl e \<Rightarrow> Inl e
        | Inr (l, w') \<Rightarrow>
            Inr (stdout_write SUCCESS (''Created listing: '' @ title l @ '' by '' @ email h) w',
                 ls @ [l]))"

definition create_listings ::
  "('p \<Rightarrow> 'p) \<Rightarrow> user list \<Rightarrow> int \<Rightarrow> 'p world \<Rightarrow> ('p, 'p world \<times> 'p listing list) result" where
  "create_listings dec hosts n w =
     foldM (\<lambda>h. foldM (seed_listing dec h) (py_range n)) hosts
       (stdout_write NOTICE ''Creating sample listings...'' w, [])"

subsection \<open>Bookings\<close>

text \<open>
  The price is multiplied by the number of nights with Python's \<^verbatim>\<open>*\<close> on the
  drawn price; \<open>mul\<close> stands for it. The draws: the guest, the offset of the check-in
  (added to today's date, one reading of the clock), the length of the stay, the status.
\<close>

definition booking_check_in :: "'p world \<Rightarrow> int" where
  "booking_check_in w = date_of (clock w 0) + randint 1 30 (rand w 1)"

definition booking_check_out :: "'p world \<Rightarrow> int" where
  "booking_check_out w = booking_check_in w + randint 2 7 (rand w 2)"

definition booking_kwargs :: "('p \<Rightarrow> int \<Rightarrow> 'p) \<Rightarrow> user list \<Rightarrow> 'p listing \<Rightarrow> 'p world \<Rightarrow> 'p booking" where
  "booking_kwargs mul guests l w =
     \<lparr>booking_id = 0, booking_property = listing_id l,
      booking_user = uid (choice guests (rand w 0)),
      check_in_date = booking_check_in w, check_out_date = booking_check_out w,
      total_price = mul (price_per_night l) (nights_between (booking_check_in w) (booking_check_out w)),
      status = choice [''pending'', ''confirmed'', ''canceled''] (rand w 3),
      booked_at = 0\<rparr>"

definition seed_booking ::
  "('p \<Rightarrow> int \<Rightarrow> 'p) \<Rightarrow> ('p \<Rightarrow> 'p) \<Rightarrow> user list \<Rightarrow> 'p listing \<Rightarrow> nat \<Rightarrow> 'p world
   \<Rightarrow> ('p, 'p world) result" where
  "seed_booking mul dec guests l i w =
     (if guests \<noteq> [] then
        (case create_booking dec (booking_kwargs mul guests l w) (skip_clock 1 (skip_rand 4 w)) of
           Inl e \<Rightarrow> Inl e
         | Inr (b, w') \<Rightarrow>
             Inr (stdout_write SUCCESS
                    (''Created booking for '' @ title l @ '' by '' @ email (choice guests (rand w 0))) w'))
      else
        Inr (stdout_write WARNING
               (''No guest users available to create booking for '' @ title l) w))"

definition create_bookings ::
  "('p \<Rightarrow> int \<Rightarrow> 'p) \<Rightarrow> ('p \<Rightarrow> 'p) \<Rightarrow> 'p listing list \<Rightarrow> user list \<Rightarrow> int \<Rightarrow> 'p world
   \<Rightarrow> ('p, 'p world) result" where
  "create_bookings mul dec ls guests n w =
     foldM (\<lambda>l. foldM (seed_booking mul dec guests l) (py_range n)) ls
       (stdout_write NOTICE ''Creating sample bookings...'' w)"

subsection \<open>Reviews\<close>

definition comments :: "string list" where
  "comments = [''Great place!'', ''Highly recommended.'', ''Clean and cozy.'',
               ''Had a wonderful stay.'', ''Excellent value.'']"

text \<open>
  The reviewer is drawn first; the rating and the comment are drawn only when the
  reviewer has no review of the listing yet.
\<close>

definition review_kwargs :: "user list \<Rightarrow> 'p listing \<Rightarrow> 'p world \<Rightarrow> review" where
  "review_kwargs guests l w =
     \<lparr>review_id = 0, review_property = listing_id l,
      review_user = uid (choice guests (rand w 0)),
      rating = randint 1 5 (rand w 1), comment = choice comments (rand w 2),
      review_created_at = 0\<rparr>"

definition seed_review :: "user list \<Rightarrow> 'p listing \<Rightarrow> nat \<Rightarrow> 'p world \<Rightarrow> ('p, 'p world) result" where
  "seed_review guests l i w =
     (if guests \<noteq> [] then
        (if \<not> review_exists (listing_id l) (uid (choice guests (rand w 0))) w then
           (case create_review (review_kwargs guests l w) (skip_rand 3 w) of
              Inl e \<Rightarrow> Inl e
            | Inr (r, w') \<Rightarrow>
                Inr (stdout_write SUCCESS
                       (''Created review for '' @ title l @ '' by '' @ email (choice guests (rand w 0))) w'))
         else
           Inr (stdout_write WARNING
                  (''User '' @ email (choice guests (rand w 0)) @ '' already reviewed '' @ title l
                   @ '', skipping.'') (skip_rand 1 w)))
      else
        Inr (stdout_write WARNING
               (''No guest users available to create review for '' @ title l) w))"

definition create_reviews ::
  "'p listing list \<Rightarrow> user list \<Rightarrow> int \<Rightarrow> 'p world \<Rightarrow> ('p, 'p world) result" where
  "create_reviews ls guests n w =
     foldM (\<lambda>l. foldM (seed_review guests l) (py_range n)) ls
       (stdout_write NOTICE ''Creating sample reviews...'' w)"

subsection \<open>The command\<close>

text \<open>
  Everything \<^verbatim>\<open>handle\<close> does after the clear phase, as the chain of its loops:
  each takes what the ones before it built.
\<close>

definition seed_reviews ::
  "options \<Rightarrow> user list \<Rightarrow> 'p listing list \<Rightarrow> 'p world \<Rightarrow> ('p, 'p world) result" where
  "seed_reviews opts us ls w =
     bind (create_reviews ls (filter (\<lambda>u. role u = ''guest'') us) (num_reviews_per_listing opts) w)
       (\<lambda>w'. Inr (stdout_write SUCCESS ''Database seeding completed successfully!'' w'))"

definition seed_bookings ::
  "('p \<Rightarrow> int \<Rightarrow> 'p) \<Rightarrow> ('p \<Rightarrow> 'p) \<Rightarrow> options \<Rightarrow> user list \<Rightarrow> 'p world \<times> 'p listing list
   \<Rightarrow> ('p, 'p world) result" where
  "seed_bookings mul dec opts us s =
     (case s of (w, ls) \<Rightarrow>
        bind (create_bookings mul dec ls (filter (\<lambda>u. role u = ''guest'') us)
                (num_bookings_per_listing opts) w)
          (seed_reviews opts us ls))"

definition seed_listings ::
  "('p \<Rightarrow> int \<Rightarrow> 'p) \<Rightarrow> ('p \<Rightarrow> 'p) \<Rightarrow> options \<Rightarrow> user list \<Rightarrow> 'p world \<times> user list
   \<Rightarrow> ('p, 'p world) result" where
  "seed_listings mul dec opts us s =
     (case s of (w, hosts) \<Rightarrow>
        bind (create_listings dec hosts (num_listings_per_host opts) w) (seed_bookings mul dec opts us))"

definition seed_hosts ::
  "('p \<Rightarrow> int \<Rightarrow> 'p) \<Rightarrow> ('p \<Rightarrow> 'p) \<Rightarrow> (user \<Rightarrow> user \<Rightarrow> bool) \<Rightarrow> options \<Rightarrow> 'p world \<times> user list
   \<Rightarrow> ('p, 'p world) result" where
  "seed_hosts mul dec uq opts s =
     (case s of (w, us) \<Rightarrow>
        bind (fallback_host uq (filter (\<lambda>u. role u = ''host'') us) w) (seed_listings mul dec opts us))"

definition seed ::
  "('p \<Rightarrow> int \<Rightarrow> 'p) \<Rightarrow> ('p \<Rightarrow> 'p) \<Rightarrow> (user \<Rightarrow> user \<Rightarrow> bool) \<Rightarrow> options \<Rightarrow> 'p world
   \<Rightarrow> ('p, 'p world) result" where
  "seed mul dec uq opts w = bind (create_users uq (num_users opts) w) (seed_hosts mul dec uq opts)"

text \<open>The first message and the optional clear phase.\<close>

definition prepare :: "options \<Rightarrow> 'p world \<Rightarrow> 'p world" where
  "prepare opts w =
     (if clear opts then clear_existing (stdout_write NOTICE ''Starting database seeding...'' w)
      else stdout_write NOTICE ''Starting database seeding...'' w)"

definition handle ::
  "('p \<Rightarrow> int \<Rightarrow> 'p) \<Rightarrow> ('p \<Rightarrow> 'p) \<Rightarrow> (user \<Rightarrow> user \<Rightarrow> bool) \<Rightarrow> options \<Rightarrow> 'p world
   \<Rightarrow> ('p, 'p world) result" where
  "handle mul dec uq opts w = seed mul dec uq opts (prepare opts w)"

text \<open>How a run ended, and the state it left.\<close>

definition succeeded :: "'e + 'a \<Rightarrow> bool" where
  "succeeded r = (case r of Inl e \<Rightarrow> False | Inr a \<Rightarrow> True)"

definition final :: "('p, 'p world) result \<Rightarrow> 'p world" where
  "final r = (case r of Inl (e, w) \<Rightarrow> w | Inr w \<Rightarrow> w)"

definition raised :: "('p, 'a) result \<Rightarrow> error option" where
  "raised r = (case r of Inl (e, w) \<Rightarrow> Some e | Inr a \<Rightarrow> None)"

section \<open>What the claims speak of\<close>

text \<open>The rows a run added to a table: those after the rows the clear phase left.\<close>

definition created_listings :: "options \<Rightarrow> 'p world \<Rightarrow> 'p world \<Rightarrow> 'p listing list" where
  "created_listings opts w w' = drop (length (listings (prepare opts w))) (listings w')"

definition created_bookings :: "options \<Rightarrow> 'p world \<Rightarrow> 'p world \<Rightarrow> 'p booking list" where
  "created_bookings opts w w' = drop (length (bookings (prepare opts w))) (bookings w')"

definition created_reviews :: "options \<Rightarrow> 'p world \<Rightarrow> 'p world \<Rightarrow> review list" where
  "created_reviews opts w w' = drop (length (reviews (prepare opts w))) (reviews w')"

definition created_users :: "options \<Rightarrow> 'p world \<Rightarrow> 'p world \<Rightarrow> user list" where
  "created_users opts w w' = drop (length (users (prepare opts w))) (users w')"

text \<open>The reviews of one (listing, user) pair, and the uniqueness of the pair.\<close>

definition reviews_of :: "nat \<Rightarrow> nat \<Rightarrow> 'p world \<Rightarrow> review list" where
  "reviews_of k u w = filter (\<lambda>r. review_property r = k \<and> review_user r = u) (reviews w)"

definition unique_reviews :: "'p world \<Rightarrow> bool" where
  "unique_reviews w \<longleftrightarrow> distinct (map (\<lambda>r. (review_property r, review_user r)) (reviews w))"

text \<open>The row a foreign key points to: the first row of the table with that key.\<close>

definition listing_of :: "nat \<Rightarrow> 'p world \<Rightarrow> 'p listing option" where
  "listing_of k w = find (\<lambda>l. listing_id l = k) (listings w)"

definition user_of :: "nat \<Rightarrow> 'p world \<Rightarrow> user option" where
  "user_of k w = find (\<lambda>u. uid u = k) (users w)"

text \<open>
  A booking's price is the price of its listing times its nights, the nights being the
  days from its check-in date to its check-out date.
\<close>

definition priced_by_nights :: "('p \<Rightarrow> int \<Rightarrow> 'p) \<Rightarrow> 'p world \<Rightarrow> 'p booking \<Rightarrow> bool" where
  "priced_by_nights mul w b =
     (case listing_of (booking_property b) w of
        None \<Rightarrow> False
      | Some l \<Rightarrow> total_price b = mul (price_per_night l) (check_out_date b - check_in_date b))"

text \<open>
  What the tables keep of that: the listing's row and the booking's row are the column's
  conversions of one price \<open>p\<close> and of \<open>p\<close> times the nights.
\<close>

definition priced_from_draw ::
  "('p \<Rightarrow> int \<Rightarrow> 'p) \<Rightarrow> ('p \<Rightarrow> 'p) \<Rightarrow> 'p world \<Rightarrow> 'p booking \<Rightarrow> bool" where
  "priced_from_draw mul dec w b =
     (case listing_of (booking_property b) w of
        None \<Rightarrow> False
      | Some l \<Rightarrow>
          (\<exists>p. price_per_night l = dec p \<and>
               total_price b = dec (mul p (check_out_date b - check_in_date b))))"

text \<open>A listing's host has the role host.\<close>

definition owned_by_host :: "'p world \<Rightarrow> 'p listing \<Rightarrow> bool" where
  "owned_by_host w l = (case user_of (host l) w of None \<Rightarrow> False | Some u \<Rightarrow> role u = ''host'')"

text \<open>
  Inputs for the examples. Prices are rational numbers there: Python's \<^verbatim>\<open>*\<close> of
  a price and a number of days is the product, and the column keeps the nearest number
  with two decimal places, a tie going to the even last digit (the rounding of Python's
  \<^verbatim>\<open>decimal\<close> module, which Django uses to quantize the value).
\<close>

definition times_nights :: "rat \<Rightarrow> int \<Rightarrow> rat" where
  "times_nights p n = p * of_int n"

definition quantize :: "rat \<Rightarrow> rat" where
  "quantize x =
     (let n = \<lfloor>x * 100\<rfloor>; r = x * 100 - of_int n
      in of_int (if r < 1 / 2 \<or> (r = 1 / 2 \<and> even n) then n else n + 1) / 100)"

text \<open>A uniqueness rule for the user table, options, and a small database.\<close>

definition same_username :: "user \<Rightarrow> user \<Rightarrow> bool" where
  "same_username v u \<longleftrightarrow> username v = username u"


definition opts_of :: "bool \<Rightarrow> int \<Rightarrow> int \<Rightarrow> int \<Rightarrow> int \<Rightarrow> options" where
  "opts_of c nu nl nb nr =
     \<lparr>clear = c, num_users = nu, num_listings_per_host = nl, num_bookings_per_listing = nb,
      num_reviews_per_listing = nr\<rparr>"

definition sample_user :: "nat \<Rightarrow> string \<Rightarrow> string \<Rightarrow> bool \<Rightarrow> user" where
  "sample_user k n r su =
     \<lparr>uid = k, username = n, email = n @ ''@example.com'', first_name = ''F'', last_name = ''L'',
      role = r, is_superuser = su\<rparr>"

definition sample_listing :: "nat \<Rightarrow> nat \<Rightarrow> rat listing" where
  "sample_listing k h =
     \<lparr>listing_id = k, host = h, title = ''Loft'', description = ''d'', address = ''a'',
      city = ''Paris'', country = ''France'', price_per_night = 80, property_type = ''room'',
      num_bedrooms = 1, num_bathrooms = 1, max_guests = 2, amenities = ''WiFi'',
      listing_created_at = 0, updated_at = 0\<rparr>"

definition sample_booking :: "nat \<Rightarrow> nat \<Rightarrow> nat \<Rightarrow> rat booking" where
  "sample_booking k l u =
     \<lparr>booking_id = k, booking_property = l, booking_user = u, check_in_date = 10,
      check_out_date = 12, total_price = 160, status = ''pending'', booked_at = 0\<rparr>"

definition sample_review :: "nat \<Rightarrow> nat \<Rightarrow> nat \<Rightarrow> int \<Rightarrow> review" where
  "sample_review k l u t =
     \<lparr>review_id = k, review_property = l, review_user = u, rating = 5, comment = ''ok'',
      review_created_at = t\<rparr>"

definition sample_world :: "rat world" where
  "sample_world =
     (empty_world 100)
       \<lparr>users := [sample_user 1 ''root'' ''host'' True, sample_user 2 ''ann'' ''guest'' False,
                  sample_user 3 ''bob'' ''host'' False],
        listings := [sample_listing 1 1, sample_listing 2 3],
        bookings := [sample_booking 1 1 2, sample_booking 2 2 2],
        reviews := [sample_review 1 1 2 5, sample_review 2 2 2 7]\<rparr>"

section \<open>The serializers (listings/serializers.py)\<close>

text \<open>
  The values of a read shape and of a payload: a key (a UUID, or the key of a user), an
  integer (also a date or a timestamp), a string, a price, a list, an object with its
  entries in order.
\<close>

datatype 'p json =
  JNull | JKey nat | JInt int | JStr string | JDec 'p
  | JList "'p json list" | JObj "(string \<times> 'p json) list"

text \<open>
  A serializer class is its declarations: the model of its \<^verbatim>\<open>Meta\<close>, the fields
  declared in the class body, and \<^verbatim>\<open>Meta.fields\<close>,
  \<^verbatim>\<open>Meta.read_only_fields\<close> and \<^verbatim>\<open>Meta.extra_kwargs\<close>. Of a model
  the serializers need, for each column, whether it is editable (not so with
  \<^verbatim>\<open>editable=False\<close>, \<^verbatim>\<open>auto_now\<close>, \<^verbatim>\<open>auto_now_add\<close> and for
  an automatic key), whether a value may be left out (a default or
  \<^verbatim>\<open>blank=True\<close>), and whether it is a foreign key. The columns are those of
  models.py; of the user model, which is not among the source files, the four columns
  that UserSerializer names, as Django's stock user model has them.
\<close>

record column =
  col_name :: string
  editable :: bool
  optional :: bool
  relation :: bool

definition col :: "string \<Rightarrow> column" where
  "col n = \<lparr>col_name = n, editable = True, optional = False, relation = False\<rparr>"

definition Listing_columns :: "column list" where
  "Listing_columns =
     [(col ''listing_id'')\<lparr>editable := False, optional := True\<rparr>,
      (col ''host'')\<lparr>relation := True\<rparr>,
      col ''title'', col ''description'', col ''address'', col ''city'', col ''country'',
      col ''price_per_night'',
      (col ''property_type'')\<lparr>optional := True\<rparr>,
      col ''num_bedrooms'', col ''num_bathrooms'', col ''max_guests'',
      (col ''amenities'')\<lparr>optional := True\<rparr>,
      (col ''created_at'')\<lparr>editable := False, optional := True\<rparr>,
      (col ''updated_at'')\<lparr>editable := False, optional := True\<rparr>]"

definition Booking_columns :: "column list" where
  "Booking_columns =
     [(col ''booking_id'')\<lparr>editable := False, optional := True\<rparr>,
      (col ''property'')\<lparr>relation := True\<rparr>,
      (col ''user'')\<lparr>relation := True\<rparr>,
      col ''check_in_date'', col ''check_out_date'', col ''total_price'',
      (col ''status'')\<lparr>optional := True\<rparr>,
      (col ''booked_at'')\<lparr>editable := False, optional := True\<rparr>]"

definition Review_columns :: "column list" where
  "Review_columns =
     [(col ''review_id'')\<lparr>editable := False, optional := True\<rparr>,
      (col ''property'')\<lparr>relation := True\<rparr>,
      (col ''user'')\<lparr>relation := True\<rparr>,
      col ''rating'',
      (col ''comment'')\<lparr>optional := True\<rparr>,
      (col ''created_at'')\<lparr>editable := False, optional := True\<rparr>]"

definition User_columns :: "column list" where
  "User_columns =
     [(col ''id'')\<lparr>editable := False, optional := True\<rparr>,
      (col ''first_name'')\<lparr>optional := True\<rparr>,
      (col ''last_name'')\<lparr>optional := True\<rparr>,
      (col ''email'')\<lparr>optional := True\<rparr>]"

datatype declared =
  NestedUser
  | PrimaryKeyRelatedField model string
  | SerializerMethodField

datatype kwarg = Read_only bool | Write_only bool

record serializer =
  meta_model :: model
  declared_fields :: "(string \<times> declared) list"
  meta_fields :: "string list"
  meta_read_only_fields :: "string list"
  meta_extra_kwargs :: "(string \<times> kwarg list) list"

definition model_columns :: "model \<Rightarrow> column list" where
  "model_columns m =
     (case m of User \<Rightarrow> User_columns | Listing \<Rightarrow> Listing_columns
      | Booking \<Rightarrow> Booking_columns | Review \<Rightarrow> Review_columns)"

definition UserSerializer :: serializer where
  "UserSerializer =
     \<lparr>meta_model = User, declared_fields = [],
      meta_fields = [''id'', ''first_name'', ''last_name'', ''email''],
      meta_read_only_fields = [''id'', ''email''],
      meta_extra_kwargs = []\<rparr>"

definition ListingSerializer :: serializer where
  "ListingSerializer =
     \<lparr>meta_model = Listing,
      declared_fields =
        [(''host'', NestedUser),
         (''host_id'', PrimaryKeyRelatedField User ''host''),
         (''reviews'', SerializerMethodField)],
      meta_fields =
        [''listing_id'', ''host'', ''host_id'', ''title'', ''description'',
         ''address'', ''city'', ''country'', ''price_per_night'',
         ''property_type'', ''num_bedrooms'', ''num_bathrooms'',
         ''max_guests'', ''amenities'', ''created_at'', ''updated_at'',
         ''reviews''],
      meta_read_only_fields = [''listing_id'', ''created_at'', ''updated_at'', ''host''],
      meta_extra_kwargs =
        [(''host'', [Read_only True]), (''host_id'', [Write_only True])]\<rparr>"

definition BookingSerializer :: serializer where
  "BookingSerializer =
     \<lparr>meta_model = Booking,
      declared_fields =
        [(''property'', SerializerMethodField),
         (''user'', NestedUser),
         (''property_id'', PrimaryKeyRelatedField Listing ''property''),
         (''user_id'', PrimaryKeyRelatedField User ''user'')],
      meta_fields =
        [''booking_id'', ''property'', ''user'', ''check_in_date'',
         ''check_out_date'', ''total_price'', ''status'', ''booked_at'',
         ''property_id'', ''user_id''],
      meta_read_only_fields = [''booking_id'', ''booked_at'', ''property'', ''user''],
      meta_extra_kwargs =
        [(''property'', [Read_only True]), (''user'', [Read_only True]),
         (''property_id'', [Write_only True]), (''user_id'', [Write_only True])]\<rparr>"

definition ReviewSerializer :: serializer where
  "ReviewSerializer =
     \<lparr>meta_model = Review,
      declared_fields =
        [(''user'', NestedUser),
         (''property_id'', PrimaryKeyRelatedField Listing ''property''),
         (''user_id'', PrimaryKeyRelatedField User ''user'')],
      meta_fields =
        [''review_id'', ''property'', ''user'', ''rating'', ''comment'',
         ''created_at'', ''property_id'', ''user_id''],
      meta_read_only_fields = [''review_id'', ''created_at'', ''property'', ''user''],
      meta_extra_kwargs =
        [(''property'', [Read_only True]), (''user'', [Read_only True]),
         (''property_id'', [Write_only True]), (''user_id'', [Write_only True])]\<rparr>"

text \<open>
  The fields \<^verbatim>\<open>ModelSerializer\<close> builds from the declarations, in the order of
  \<^verbatim>\<open>Meta.fields\<close>. A name declared in the class body is taken as declared:
  \<^verbatim>\<open>UserSerializer(read_only=True)\<close>,
  \<^verbatim>\<open>PrimaryKeyRelatedField(queryset=..., write_only=True, source=...)\<close> (required,
  as no \<^verbatim>\<open>required=False\<close> is given), and \<^verbatim>\<open>SerializerMethodField()\<close>,
  which is read-only and calls \<^verbatim>\<open>get_<name>\<close>; \<^verbatim>\<open>Meta.read_only_fields\<close>
  and \<^verbatim>\<open>Meta.extra_kwargs\<close> do not apply to it. Any other name is built from
  the model's column of that name: read-only when the column is not editable or when
  \<^verbatim>\<open>Meta.read_only_fields\<close> or \<^verbatim>\<open>Meta.extra_kwargs\<close> says so, required
  when it is writable and a value may not be left out. A name that is neither declared
  nor a column gives no field (the framework refuses such a class; none of the four has
  such a name).
\<close>

datatype field_class = ModelField | RelatedField | NestedSerializer | MethodField

record field =
  field_name :: string
  field_source :: string
  field_class :: field_class
  read_only :: bool
  write_only :: bool
  required :: bool

definition extra_of :: "serializer \<Rightarrow> string \<Rightarrow> kwarg list" where
  "extra_of ser n =
     (case map_of (meta_extra_kwargs ser) n of None \<Rightarrow> [] | Some ks \<Rightarrow> ks)
     @ (if n \<in> set (meta_read_only_fields ser) then [Read_only True] else [])"

definition build_field :: "serializer \<Rightarrow> string \<Rightarrow> field option" where
  "build_field ser n =
     (case map_of (declared_fields ser) n of
        Some NestedUser \<Rightarrow>
          Some \<lparr>field_name = n, field_source = n, field_class = NestedSerializer,
                read_only = True, write_only = False, required = False\<rparr>
      | Some (PrimaryKeyRelatedField m s) \<Rightarrow>
          Some \<lparr>field_name = n, field_source = s, field_class = RelatedField,
                read_only = False, write_only = True, required = True\<rparr>
      | Some SerializerMethodField \<Rightarrow>
          Some \<lparr>field_name = n, field_source = ''get_'' @ n, field_class = MethodField,
                read_only = True, write_only = False, required = False\<rparr>
      | None \<Rightarrow>
          (case find (\<lambda>c. col_name c = n) (model_columns (meta_model ser)) of
             None \<Rightarrow> None
           | Some c \<Rightarrow>
               Some \<lparr>field_name = n, field_source = n,
                     field_class = (if relation c then RelatedField else ModelField),
                     read_only = (\<not> editable c \<or> Read_only True \<in> set (extra_of ser n)),
                     write_only = (Write_only True \<in> set (extra_of ser n)),
                     required = (editable c \<and> Read_only True \<notin> set (extra_of ser n)
                                 \<and> \<not> optional c)\<rparr>))"

definition get_fields :: "serializer \<Rightarrow> field list" where
  "get_fields ser = List.map_filter (build_field ser) (meta_fields ser)"

definition readable_fields :: "serializer \<Rightarrow> field list" where
  "readable_fields ser = filter (\<lambda>f. \<not> write_only f) (get_fields ser)"

definition writable_fields :: "serializer \<Rightarrow> field list" where
  "writable_fields ser = filter (\<lambda>f. \<not> read_only f) (get_fields ser)"

subsection \<open>The read shape\<close>

text \<open>
  \<^verbatim>\<open>serializer.data\<close>: one entry for each field that is not write-only, in the
  order of the fields, holding what the field makes of the instance's attribute. A
  model field gives the column's value, a related field the key it holds, a nested
  UserSerializer the read shape of the user the key points to (reading a key with no
  target row raises), a method field what its method returns.
\<close>

datatype failure = RelatedObjectDoesNotExist | AttributeError | ValidationError "string list"

definition to_representation ::
  "serializer \<Rightarrow> (field \<Rightarrow> failure + 'p json) \<Rightarrow> failure + 'p json" where
  "to_representation ser attr =
     (case foldM (\<lambda>f kvs. case attr f of Inl e \<Rightarrow> Inl e
                                | Inr v \<Rightarrow> Inr (kvs @ [(field_name f, v)]))
             (readable_fields ser) [] of
        Inl e \<Rightarrow> Inl e
      | Inr kvs \<Rightarrow> Inr (JObj kvs))"

definition user_attribute :: "user \<Rightarrow> field \<Rightarrow> failure + 'p json" where
  "user_attribute u f =
     (if field_source f = ''id'' then Inr (JKey (uid u))
      else if field_source f = ''first_name'' then Inr (JStr (first_name u))
      else if field_source f = ''last_name'' then Inr (JStr (last_name u))
      else if field_source f = ''email'' then Inr (JStr (email u))
      else Inl AttributeError)"

definition related_user :: "'p world \<Rightarrow> nat \<Rightarrow> failure + 'p json" where
  "related_user w k =
     (case user_of k w of
        None \<Rightarrow> Inl RelatedObjectDoesNotExist
      | Some u \<Rightarrow> to_representation UserSerializer (user_attribute u))"

definition review_attribute :: "'p world \<Rightarrow> review \<Rightarrow> field \<Rightarrow> failure + 'p json" where
  "review_attribute w r f =
     (case field_class f of
        NestedSerializer \<Rightarrow>
          (if field_source f = ''user'' then related_user w (review_user r) else Inl AttributeError)
      | RelatedField \<Rightarrow>
          (if field_source f = ''property'' then Inr (JKey (review_property r))
           else if field_source f = ''user'' then Inr (JKey (review_user r))
           else Inl AttributeError)
      | MethodField \<Rightarrow> Inl AttributeError
      | ModelField \<Rightarrow>
          (if field_source f = ''review_id'' then Inr (JKey (review_id r))
           else if field_source f = ''rating'' then Inr (JInt (rating r))
           else if field_source f = ''comment'' then Inr (JStr (comment r))
           else if field_source f = ''created_at'' then Inr (JInt (review_created_at r))
           else Inl AttributeError))"

text \<open>
  \<^verbatim>\<open>obj.reviews.all().order_by('-created_at')\<close>, then
  \<^verbatim>\<open>ReviewSerializer(reviews, many=True).data\<close>. The database leaves the order
  of rows with equal created\_at open; the model keeps them in table order.
\<close>

definition related_reviews :: "'p world \<Rightarrow> 'p listing \<Rightarrow> review list" where
  "related_reviews w obj = filter (\<lambda>r. review_property r = listing_id obj) (reviews w)"

definition order_by_desc :: "('a \<Rightarrow> int) \<Rightarrow> 'a list \<Rightarrow> 'a list" where
  "order_by_desc key xs = sort_key (\<lambda>x. - key x) xs"

definition many :: "('a \<Rightarrow> failure + 'p json) \<Rightarrow> 'a list \<Rightarrow> failure + 'p json" where
  "many data xs =
     (case foldM (\<lambda>x js. case data x of Inl e \<Rightarrow> Inl e | Inr j \<Rightarrow> Inr (js @ [j])) xs [] of
        Inl e \<Rightarrow> Inl e
      | Inr js \<Rightarrow> Inr (JList js))"

definition get_reviews :: "'p world \<Rightarrow> 'p listing \<Rightarrow> failure + 'p json" where
  "get_reviews w obj =
     many (\<lambda>r. to_representation ReviewSerializer (review_attribute w r))
       (order_by_desc review_created_at (related_reviews w obj))"

definition listing_attribute :: "'p world \<Rightarrow> 'p listing \<Rightarrow> field \<Rightarrow> failure + 'p json" where
  "listing_attribute w l f =
     (case field_class f of
        NestedSerializer \<Rightarrow>
          (if field_source f = ''host'' then related_user w (host l) else Inl AttributeError)
      | RelatedField \<Rightarrow>
          (if field_source f = ''host'' then Inr (JKey (host l)) else Inl AttributeError)
      | MethodField \<Rightarrow>
          (if field_name f = ''reviews'' then get_reviews w l else Inl AttributeError)
      | ModelField \<Rightarrow>
          (if field_source f = ''listing_id'' then Inr (JKey (listing_id l))
           else if field_source f = ''title'' then Inr (JStr (title l))
           else if field_source f = ''description'' then Inr (JStr (description l))
           else if field_source f = ''address'' then Inr (JStr (address l))
           else if field_source f = ''city'' then Inr (JStr (city l))
           else if field_source f = ''country'' then Inr (JStr (country l))
           else if field_source f = ''price_per_night'' then Inr (JDec (price_per_night l))
           else if field_source f = ''property_type'' then Inr (JStr (property_type l))
           else if field_source f = ''num_bedrooms'' then Inr (JInt (num_bedrooms l))
           else if field_source f = ''num_bathrooms'' then Inr (JInt (num_bathrooms l))
           else if field_source f = ''max_guests'' then Inr (JInt (max_guests l))
           else if field_source f = ''amenities'' then Inr (JStr (amenities l))
           else if field_source f = ''created_at'' then Inr (JInt (listing_created_at l))
           else if field_source f = ''updated_at'' then Inr (JInt (updated_at l))
           else Inl AttributeError))"

definition get_property :: "'p world \<Rightarrow> 'p booking \<Rightarrow> failure + 'p json" where
  "get_property w obj =
     (case listing_of (booking_property obj) w of
        None \<Rightarrow> Inl RelatedObjectDoesNotExist
      | Some l \<Rightarrow>
          Inr (JObj [(''listing_id'', JKey (listing_id l)), (''title'', JStr (title l)),
                     (''city'', JStr (city l)), (''country'', JStr (country l)),
                     (''price_per_night'', JDec (price_per_night l))]))"

definition booking_attribute :: "'p world \<Rightarrow> 'p booking \<Rightarrow> field \<Rightarrow> failure + 'p json" where
  "booking_attribute w b f =
     (case field_class f of
        NestedSerializer \<Rightarrow>
          (if field_source f = ''user'' then related_user w (booking_user b) else Inl AttributeError)
      | RelatedField \<Rightarrow>
          (if field_source f = ''property'' then Inr (JKey (booking_property b))
           else if field_source f = ''user'' then Inr (JKey (booking_user b))
           else Inl AttributeError)
      | MethodField \<Rightarrow>
          (if field_name f = ''property'' then get_property w b else Inl AttributeError)
      | ModelField \<Rightarrow>
          (if field_source f = ''booking_id'' then Inr (JKey (booking_id b))
           else if field_source f = ''check_in_date'' then Inr (JInt (check_in_date b))
           else if field_source f = ''check_out_date'' then Inr (JInt (check_out_date b))
           else if field_source f = ''total_price'' then Inr (JDec (total_price b))
           else if field_source f = ''status'' then Inr (JStr (status b))
           else if field_source f = ''booked_at'' then Inr (JInt (booked_at b))
           else Inl AttributeError))"

text \<open>The entry of an object under a name; a database with several reviews of one listing.\<close>

definition lookup :: "string \<Rightarrow> 'p json \<Rightarrow> 'p json option" where
  "lookup k j = (case j of JObj kvs \<Rightarrow> map_of kvs k | _ \<Rightarrow> None)"

definition review_world :: "rat world" where
  "review_world =
     sample_world\<lparr>reviews := [sample_review 1 1 2 5, sample_review 2 2 2 7, sample_review 3 1 3 9,
                              sample_review 4 1 1 5]\<rparr>"

section \<open>Relations between the states of a run\<close>

text \<open>
  What holds of an outcome: \<open>E\<close> of the exception and the state it left, or \<open>Q\<close> of
  the value.
\<close>

definition ends :: "('e \<Rightarrow> bool) \<Rightarrow> ('a \<Rightarrow> bool) \<Rightarrow> 'e + 'a \<Rightarrow> bool" where
  "ends E Q r = (case r of Inl e \<Rightarrow> E e | Inr a \<Rightarrow> Q a)"

text \<open>
  How one state follows another in each loop of the command: the loop appends rows to
  one table and leaves the other tables as they are.
\<close>

definition keeps_reviews :: "'p world \<Rightarrow> 'p world \<Rightarrow> bool" where
  "keeps_reviews w w' \<longleftrightarrow>
     users w' = users w \<and> listings w' = listings w \<and> bookings w' = bookings w \<and>
     (\<exists>rs. reviews w' = reviews w @ rs) \<and> (unique_reviews w \<longrightarrow> unique_reviews w')"

definition adds_users :: "'p world \<Rightarrow> 'p world \<Rightarrow> bool" where
  "adds_users w w' \<longleftrightarrow>
     listings w' = listings w \<and> bookings w' = bookings w \<and> reviews w' = reviews w \<and>
     (\<exists>us. users w' = users w @ us) \<and>
     (distinct (map uid (users w)) \<longrightarrow> distinct (map uid (users w')))"

text \<open>Some row of the user table with role host has the key the listing names as host.\<close>

definition hosted :: "'p world \<Rightarrow> 'p listing \<Rightarrow> bool" where
  "hosted w l \<longleftrightarrow> (\<exists>h \<in> set (users w). uid h = host l \<and> role h = ''host'')"

definition adds_listings :: "'p world \<Rightarrow> 'p world \<Rightarrow> bool" where
  "adds_listings w w' \<longleftrightarrow>
     users w' = users w \<and> bookings w' = bookings w \<and> reviews w' = reviews w \<and>
     (\<exists>ls. listings w' = listings w @ ls \<and> list_all (hosted w) ls)"

text \<open>The rows of the in-memory listings are what the column keeps of them.\<close>

definition known_listings :: "('p \<Rightarrow> 'p) \<Rightarrow> 'p world \<Rightarrow> 'p listing list \<Rightarrow> bool" where
  "known_listings dec w ls \<longleftrightarrow>
     list_all (\<lambda>l. listing_of (listing_id l) w = Some (stored_listing dec l)) ls"

definition adds_bookings ::
  "('p \<Rightarrow> int \<Rightarrow> 'p) \<Rightarrow> ('p \<Rightarrow> 'p) \<Rightarrow> 'p world \<Rightarrow> 'p world \<Rightarrow> bool" where
  "adds_bookings mul dec w w' \<longleftrightarrow>
     users w' = users w \<and> listings w' = listings w \<and> reviews w' = reviews w \<and>
     (\<exists>bs. bookings w' = bookings w @ bs \<and> list_all (priced_from_draw mul dec w) bs)"

text \<open>How the state a run leaves follows the state it started on.\<close>

definition seeded :: "('p \<Rightarrow> int \<Rightarrow> 'p) \<Rightarrow> ('p \<Rightarrow> 'p) \<Rightarrow> 'p world \<Rightarrow> 'p world \<Rightarrow> bool" where
  "seeded mul dec w W \<longleftrightarrow>
     (\<exists>us. users W = users w @ us) \<and>
     (distinct (map uid (users w)) \<longrightarrow> distinct (map uid (users W))) \<and>
     (\<exists>ls. listings W = listings w @ ls \<and> list_all (hosted W) ls) \<and>
     (\<exists>bs. bookings W = bookings w @ bs \<and> list_all (priced_from_draw mul dec W) bs) \<and>
     (\<exists>rs. reviews W = reviews w @ rs) \<and>
     (unique_reviews w \<longrightarrow> unique_reviews W)"

definition no_guest_warnings :: "string \<Rightarrow> 'p listing list \<Rightarrow> int \<Rightarrow> (style \<times> string) list" where
  "no_guest_warnings what ls n =
     concat (map (\<lambda>l. replicate (nat n)
                          (WARNING, ''No guest users available to create '' @ what @ '' for '' @ title l))
               ls)"

definition no_guest_output :: "options \<Rightarrow> 'p listing list \<Rightarrow> (style \<times> string) list" where
  "no_guest_output opts ls =
     [(NOTICE, ''Creating sample bookings...'')]
     @ no_guest_warnings ''booking'' ls (num_bookings_per_listing opts)
     @ [(NOTICE, ''Creating sample reviews...'')]
     @ no_guest_warnings ''review'' ls (num_reviews_per_listing opts)
     @ [(SUCCESS, ''Database seeding completed successfully!'')]"

definition host_draws :: "rat world" where
  "host_draws = (empty_world 100)\<lparr>rand := (\<lambda>k. 1)\<rparr>"

definition fallback_user :: "'p world \<Rightarrow> user" where
  "fallback_user w = new_user ''auto_host'' ''auto_host@example.com'' ''Auto'' ''Host'' ''host'' w"

definition by_name_or_email :: "(user \<Rightarrow> user \<Rightarrow> bool) \<Rightarrow> bool" where
  "by_name_or_email uq \<longleftrightarrow> (\<forall>v u. uq v u \<longrightarrow> username v = username u \<or> email v = email u)"

definition fresh_names :: "'p world \<Rightarrow> bool" where
  "fresh_names w \<longleftrightarrow>
     list_all (\<lambda>v. username v \<notin> set [''user0'', ''user1'', ''auto_host''] \<and>
                    email v \<notin> set [''user0@example.com'', ''user1@example.com'',
                                     ''auto_host@example.com''])
       (users w)"

definition listing_loop ::
  "('p \<Rightarrow> 'p) \<Rightarrow> 'p world \<Rightarrow> user list \<Rightarrow> nat \<Rightarrow> 'p world \<times> 'p listing list \<Rightarrow> bool" where
  "listing_loop dec w hs m s \<longleftrightarrow>
     users (fst s) = users w \<and> bookings (fst s) = bookings w \<and> reviews (fst s) = reviews w \<and>
     listings (fst s) = listings w @ map (stored_listing dec) (snd s) \<and> length (snd s) = m \<and>
     list_all (\<lambda>l. host l \<in> uid ` set hs) (snd s)"

definition booking_loop :: "'p world \<Rightarrow> nat \<Rightarrow> 'p world \<Rightarrow> bool" where
  "booking_loop w m s \<longleftrightarrow>
     users s = users w \<and> listings s = listings w \<and> reviews s = reviews w \<and>
     length (bookings s) = length (bookings w) + m"

definition review_loop :: "'p world \<Rightarrow> nat \<Rightarrow> 'p world \<Rightarrow> bool" where
  "review_loop w m s \<longleftrightarrow>
     users s = users w \<and> listings s = listings w \<and> bookings s = bookings w \<and>
     length (reviews w) \<le> length (reviews s) \<and> length (reviews s) \<le> length (reviews w) + m"

section \<open>Deleting a listing\<close>

lemma delete_listing_users: "users (delete_listing k w) = users w"
  by (simp add: delete_listing_def delete_listings_def Let_def)

lemma delete_listing_listings:
  "listings (delete_listing k w) = filter (\<lambda>l. listing_id l \<noteq> k) (listings w)"
  by (simp add: delete_listing_def delete_listings_def Let_def)

lemma gone_ids:
  "list_ex (\<lambda>l. listing_id l = k) ls \<Longrightarrow> set (map listing_id (filter (\<lambda>l. listing_id l = k) ls)) = {k}"
  by (induction ls) auto

lemma delete_listing_bookings:
  "list_ex (\<lambda>l. listing_id l = k) (listings w) \<Longrightarrow>
   bookings (delete_listing k w) = filter (\<lambda>b. booking_property b \<noteq> k) (bookings w)"
  using gone_ids [of k "listings w"]
  by (simp add: delete_listing_def delete_listings_def Let_def)

lemma delete_listing_reviews:
  "list_ex (\<lambda>l. listing_id l = k) (listings w) \<Longrightarrow>
   reviews (delete_listing k w) = filter (\<lambda>r. review_property r \<noteq> k) (reviews w)"
  using gone_ids [of k "listings w"]
  by (simp add: delete_listing_def delete_listings_def Let_def)

lemma delete_listing_no_dangling:
  assumes "list_ex (\<lambda>l. listing_id l = k) (listings w)" and "no_dangling_listing w"
  shows "no_dangling_listing (delete_listing k w)"
  using assms(2)
  unfolding no_dangling_listing_def delete_listing_bookings [OF assms(1)]
    delete_listing_reviews [OF assms(1)] delete_listing_listings
  by (auto simp: list_all_iff)

text \<open>
  C5. Deleting a listing that is in the table removes exactly the listing, the bookings
  whose property is that listing and the reviews whose property is that listing; the
  users stay; and when no booking or review had a dangling listing reference before, none
  has one afterwards.
\<close>

theorem delete_listing_cascades:
  assumes "list_ex (\<lambda>l. listing_id l = k) (listings w)"
  shows "listings (delete_listing k w) = filter (\<lambda>l. listing_id l \<noteq> k) (listings w)
       \<and> bookings (delete_listing k w) = filter (\<lambda>b. booking_property b \<noteq> k) (bookings w)
       \<and> reviews (delete_listing k w) = filter (\<lambda>r. review_property r \<noteq> k) (reviews w)
       \<and> list_all (\<lambda>b. booking_property b \<noteq> k) (bookings (delete_listing k w))
       \<and> list_all (\<lambda>r. review_property r \<noteq> k) (reviews (delete_listing k w))
       \<and> users (delete_listing k w) = users w
       \<and> (no_dangling_listing w \<longrightarrow> no_dangling_listing (delete_listing k w))"
  using delete_listing_bookings [OF assms] delete_listing_reviews [OF assms]
    delete_listing_no_dangling [OF assms]
  by (simp add: delete_listing_listings delete_listing_users list_all_iff)

lemmas sample_defs = sample_world_def sample_user_def sample_listing_def sample_booking_def
  sample_review_def empty_world_def

theorem delete_listing_cascades_witness:
  "list_ex (\<lambda>l. listing_id l = 1) (listings sample_world)
   \<and> no_dangling_listing sample_world
   \<and> bookings (delete_listing 1 sample_world) = [sample_booking 2 2 2]
   \<and> reviews (delete_listing 1 sample_world) = [sample_review 2 2 2 7]
   \<and> map listing_id (listings (delete_listing 1 sample_world)) = [2]
   \<and> no_dangling_listing (delete_listing 1 sample_world)"
proof -
  have h: "list_ex (\<lambda>l. listing_id l = 1) (listings sample_world)"
    by (simp add: sample_defs)
  have d: "no_dangling_listing sample_world"
    by (simp add: sample_defs no_dangling_listing_def)
  from delete_listing_cascades [OF h] d show ?thesis
    by (simp add: sample_defs no_dangling_listing_def)
qed

section \<open>The clear phase\<close>

lemma delete_reviews_all:
  "delete_reviews (\<lambda>r. True) w = w\<lparr>reviews := []\<rparr>"
  by (simp add: delete_reviews_def)

lemma delete_bookings_all:
  "delete_bookings (\<lambda>b. True) w = w\<lparr>bookings := []\<rparr>"
  by (simp add: delete_bookings_def)

lemma delete_listings_all:
  "delete_listings (\<lambda>l. True) w =
   w\<lparr>listings := [],
     bookings := filter (\<lambda>b. booking_property b \<notin> listing_id ` set (listings w)) (bookings w),
     reviews := filter (\<lambda>r. review_property r \<notin> listing_id ` set (listings w)) (reviews w)\<rparr>"
  by (simp add: delete_listings_def Let_def)

lemma delete_users_empty_tables:
  "listings w = [] \<Longrightarrow> bookings w = [] \<Longrightarrow> reviews w = [] \<Longrightarrow>
   delete_users sel w = w\<lparr>users := filter (\<lambda>u. \<not> sel u) (users w)\<rparr>"
  by (simp add: delete_users_def delete_listings_def delete_bookings_def delete_reviews_def Let_def)

lemma clear_existing_tables:
  "users (clear_existing w) = filter is_superuser (users w)"
  "listings (clear_existing w) = []"
  "bookings (clear_existing w) = []"
  "reviews (clear_existing w) = []"
  "out (clear_existing w) =
     out w @ [(WARNING, ''Clearing existing data...''), (SUCCESS, ''Existing data cleared.'')]"
  "rand (clear_existing w) = rand w"
  "unif (clear_existing w) = unif w"
  "clock (clear_existing w) = clock w"
  by (simp_all add: clear_existing_def delete_all_reviews_def delete_all_bookings_def
      delete_all_listings_def delete_non_superusers_def delete_reviews_all delete_bookings_all
      delete_listings_all delete_users_empty_tables stdout_write_def)




section \<open>Outcomes, loops and sequencing\<close>

lemma bind_Inr: "bind (Inr a) f = f a"
  by (simp add: bind_def)

lemma bind_Inl: "bind (Inl e) f = Inl e"
  by (simp add: bind_def)

lemma ends_Inl: "ends E Q (Inl e) = E e"
  by (simp add: ends_def)

lemma ends_Inr: "ends E Q (Inr a) = Q a"
  by (simp add: ends_def)

lemma ends_mono:
  assumes "ends E Q r" and "\<And>e. E e \<Longrightarrow> E' e" and "\<And>a. Q a \<Longrightarrow> Q' a"
  shows "ends E' Q' r"
  using assms by (cases r) (simp_all add: ends_def)

lemma ends_bind:
  assumes "ends E (\<lambda>a. ends E Q (f a)) m"
  shows "ends E Q (bind m f)"
  using assms by (cases m) (simp_all add: ends_def bind_def)

lemma ends_foldM:
  assumes "I s" and "\<And>x s. x \<in> set xs \<Longrightarrow> I s \<Longrightarrow> ends E I (f x s)"
  shows "ends E I (foldM f xs s)"
  using assms
proof (induction xs arbitrary: s)
  case Nil
  then show ?case by (simp add: ends_def)
next
  case (Cons x xs)
  from Cons.prems have step: "ends E I (f x s)" by simp
  show ?case
  proof (cases "f x s")
    case (Inl e)
    with step show ?thesis by (simp add: ends_def)
  next
    case (Inr s')
    with step have "I s'" by (simp add: ends_def)
    then have "ends E I (foldM f xs s')"
      using Cons.prems(2) by (intro Cons.IH) simp_all
    with Inr show ?thesis by simp
  qed
qed

section \<open>Fresh keys and lookups\<close>

lemma fold_max_bounds: "(a::nat) \<le> fold max ks a \<and> (\<forall>k \<in> set ks. k \<le> fold max ks a)"
proof (induction ks arbitrary: a)
  case Nil
  show ?case by simp
next
  case (Cons k ks)
  from Cons.IH [of "max k a"] show ?case by auto
qed

lemma fresh_not_in: "fresh ks \<notin> set ks"
  using fold_max_bounds [of 0 ks] by (auto simp: fresh_def)

lemma find_append_eq:
  "find P (xs @ ys) = (case find P xs of None \<Rightarrow> find P ys | Some x \<Rightarrow> Some x)"
  by (induction xs) simp_all

lemma find_None_iff_not_ex: "find P xs = None \<longleftrightarrow> \<not> list_ex P xs"
  by (induction xs) simp_all

lemma find_distinct_key:
  "distinct (map f xs) \<Longrightarrow> x \<in> set xs \<Longrightarrow> find (\<lambda>y. f y = f x) xs = Some x"
  by (induction xs) (auto simp: image_iff)

lemmas frame_simps = stdout_write_def skip_clock_def skip_rand_def skip_unif_def

section \<open>Reviews\<close>

lemma create_review_cases:
  "create_review r0 w = Inl (IntegrityError, skip_clock 1 w) \<or>
   (\<not> review_exists (review_property r0) (review_user r0) w \<and>
    create_review r0 w =
      Inr (new_review r0 w, (skip_clock 1 w)\<lparr>reviews := reviews w @ [new_review r0 w]\<rparr>))"
  by (simp add: create_review_def)

lemma new_review_pair:
  "review_property (new_review r0 w) = review_property r0"
  "review_user (new_review r0 w) = review_user r0"
  by (simp_all add: new_review_def)

lemma review_exists_iff:
  "review_exists k u w \<longleftrightarrow> (k, u) \<in> set (map (\<lambda>r. (review_property r, review_user r)) (reviews w))"
  by (auto simp: review_exists_def list_ex_iff image_iff)

lemma keeps_reviews_refl: "keeps_reviews w w"
  by (simp add: keeps_reviews_def)

lemma keeps_reviews_trans: "keeps_reviews w w' \<Longrightarrow> keeps_reviews w' w'' \<Longrightarrow> keeps_reviews w w''"
  by (auto simp: keeps_reviews_def)

lemma keeps_reviews_frame:
  "users w' = users w \<Longrightarrow> listings w' = listings w \<Longrightarrow> bookings w' = bookings w \<Longrightarrow>
   reviews w' = reviews w \<Longrightarrow> keeps_reviews w w'"
  by (simp add: keeps_reviews_def unique_reviews_def)

lemma create_review_keeps:
  "ends (\<lambda>(e, w'). keeps_reviews w w') (\<lambda>(r, w'). keeps_reviews w w') (create_review r0 w)"
  using create_review_cases [of r0 w]
  by (auto simp: ends_def keeps_reviews_def frame_simps unique_reviews_def new_review_pair
      review_exists_iff)

lemma seed_review_keeps:
  "ends (\<lambda>(e, w'). keeps_reviews w w') (\<lambda>w'. keeps_reviews w w') (seed_review guests l i w)"
proof -
  have k: "keeps_reviews w (skip_rand 3 w)"
    by (simp add: keeps_reviews_frame frame_simps)
  have "ends (\<lambda>(e, w'). keeps_reviews w w') (\<lambda>(r, w'). keeps_reviews w w')
          (create_review (review_kwargs guests l w) (skip_rand 3 w))"
    using create_review_keeps [of "skip_rand 3 w" "review_kwargs guests l w"]
    by (rule ends_mono) (auto intro: keeps_reviews_trans [OF k])
  then show ?thesis
    by (auto simp: seed_review_def ends_def keeps_reviews_frame frame_simps
        keeps_reviews_def unique_reviews_def split: sum.splits)
qed

lemma create_reviews_keeps:
  "ends (\<lambda>(e, w'). keeps_reviews w w') (\<lambda>w'. keeps_reviews w w') (create_reviews ls guests n w)"
proof -
  let ?E = "\<lambda>(e, w'). keeps_reviews w w'"
  let ?I = "\<lambda>w'. keeps_reviews w w'"
  have start: "?I (stdout_write NOTICE ''Creating sample reviews...'' w)"
    by (simp add: keeps_reviews_frame frame_simps)
  have inner: "ends ?E ?I (foldM (seed_review guests l) xs s)" if "?I s" for l xs s
    using that
  proof (rule ends_foldM)
    fix x s' assume a: "?I s'"
    show "ends ?E ?I (seed_review guests l x s')"
      by (rule ends_mono [OF seed_review_keeps [of s' guests l x]])
        (auto intro: keeps_reviews_trans [OF a])
  qed
  show ?thesis
    unfolding create_reviews_def
  proof (rule ends_foldM)
    show "?I (stdout_write NOTICE ''Creating sample reviews...'' w)" by (rule start)
  next
    fix l s assume "?I s"
    then show "ends ?E ?I (foldM (seed_review guests l) (py_range n) s)" by (rule inner)
  qed
qed

section \<open>Users\<close>

lemma adds_users_frame:
  "users w' = users w \<Longrightarrow> listings w' = listings w \<Longrightarrow> bookings w' = bookings w \<Longrightarrow>
   reviews w' = reviews w \<Longrightarrow> adds_users w w'"
  by (simp add: adds_users_def)

lemma adds_users_trans: "adds_users w w' \<Longrightarrow> adds_users w' w'' \<Longrightarrow> adds_users w w''"
  by (auto simp: adds_users_def)

lemma adds_users_subset: "adds_users w w' \<Longrightarrow> set (users w) \<subseteq> set (users w')"
  by (auto simp: adds_users_def)

lemma create_user_cases:
  "create_user uq un em fn sn r w = Inl (IntegrityError, w) \<or>
   create_user uq un em fn sn r w =
     Inr (new_user un em fn sn r w, w\<lparr>users := users w @ [new_user un em fn sn r w]\<rparr>)"
  by (simp add: create_user_def)

lemma new_user_fields:
  "uid (new_user un em fn sn r w) = fresh (map uid (users w))"
  "role (new_user un em fn sn r w) = r"
  "username (new_user un em fn sn r w) = un"
  "email (new_user un em fn sn r w) = em"
  by (simp_all add: new_user_def)

lemma create_user_adds:
  "ends (\<lambda>(e, w'). adds_users w w')
        (\<lambda>(u, w'). adds_users w w' \<and> u \<in> set (users w') \<and> role u = r)
        (create_user uq un em fn sn r w)"
  using create_user_cases [of uq un em fn sn r w] fresh_not_in [of "map uid (users w)"]
  by (auto simp: ends_def adds_users_def new_user_fields)

lemma get_user_by_email_cases:
  "ends (\<lambda>(e, w'). w' = w) (\<lambda>u. u \<in> set (users w) \<and> email u = em) (get_user_by_email em w)"
proof (cases "filter (\<lambda>u. email u = em) (users w)")
  case Nil
  then show ?thesis by (simp add: get_user_by_email_def ends_def)
next
  case (Cons u us)
  then have "u \<in> set (filter (\<lambda>u. email u = em) (users w))" by simp
  then have "u \<in> set (users w) \<and> email u = em" by simp
  with Cons show ?thesis
    by (cases us) (simp_all add: get_user_by_email_def ends_def)
qed

lemma seed_user_adds:
  assumes "adds_users w s" and "set us \<subseteq> set (users s)"
  shows "ends (\<lambda>(e, w'). adds_users w w')
              (\<lambda>(w', us'). adds_users w w' \<and> set us' \<subseteq> set (users w'))
              (seed_user uq i (s, us))"
proof (cases "list_ex (\<lambda>u. email u = user_email i) (users s)")
  case True
  have "ends (\<lambda>(e, w'). adds_users w w') (\<lambda>u. u \<in> set (users s))
          (get_user_by_email (user_email i) s)"
    by (rule ends_mono [OF get_user_by_email_cases]) (use assms in auto)
  with True assms show ?thesis
    by (auto simp: seed_user_def ends_def frame_simps adds_users_def split: sum.splits)
next
  case False
  let ?s1 = "skip_rand 1 s"
  have a1: "adds_users w ?s1"
    using assms(1) by (auto simp: adds_users_def frame_simps)
  have "ends (\<lambda>(e, w'). adds_users ?s1 w')
          (\<lambda>(u, w'). adds_users ?s1 w' \<and> u \<in> set (users w') \<and>
             role u = choice [''guest'', ''host''] (rand s 0))
          (create_user uq (''user'' @ str_nat i) (user_email i) (''First'' @ str_nat i)
             (''Last'' @ str_nat i) (choice [''guest'', ''host''] (rand s 0)) ?s1)"
    by (rule create_user_adds)
  then have "ends (\<lambda>(e, w'). adds_users w w')
          (\<lambda>(u, w'). adds_users w w' \<and> u \<in> set (users w') \<and> set us \<subseteq> set (users w'))
          (create_user uq (''user'' @ str_nat i) (user_email i) (''First'' @ str_nat i)
             (''Last'' @ str_nat i) (choice [''guest'', ''host''] (rand s 0)) ?s1)"
  proof (rule ends_mono)
    fix e :: "error \<times> 'a world"
    assume "case e of (e, w') \<Rightarrow> adds_users ?s1 w'"
    then show "case e of (e, w') \<Rightarrow> adds_users w w'"
      by (auto intro: adds_users_trans [OF a1])
  next
    fix a :: "user \<times> 'a world"
    assume "case a of (u, w') \<Rightarrow> adds_users ?s1 w' \<and> u \<in> set (users w') \<and>
             role u = choice [''guest'', ''host''] (rand s 0)"
    then show "case a of (u, w') \<Rightarrow> adds_users w w' \<and> u \<in> set (users w') \<and> set us \<subseteq> set (users w')"
      using assms(2) adds_users_subset [of ?s1]
      by (auto intro: adds_users_trans [OF a1] simp: frame_simps)
  qed
  with False show ?thesis
    by (auto simp: seed_user_def ends_def frame_simps adds_users_def split: sum.splits)
qed

lemma create_users_adds:
  "ends (\<lambda>(e, w'). adds_users w w')
        (\<lambda>(w', us). adds_users w w' \<and> set us \<subseteq> set (users w'))
        (create_users uq n w)"
  unfolding create_users_def
proof (rule ends_foldM)
  show "case (stdout_write NOTICE (''Creating '' @ str_int n @ '' sample users...'') w, []) of
          (w', us) \<Rightarrow> adds_users w w' \<and> set us \<subseteq> set (users w')"
    by (simp add: adds_users_frame frame_simps)
next
  fix x and s :: "'a world \<times> user list"
  assume "case s of (w', us) \<Rightarrow> adds_users w w' \<and> set us \<subseteq> set (users w')"
  then show "ends (\<lambda>(e, w'). adds_users w w')
               (\<lambda>(w', us). adds_users w w' \<and> set us \<subseteq> set (users w')) (seed_user uq x s)"
    by (cases s) (simp add: seed_user_adds)
qed

lemma fallback_host_adds:
  assumes "set hs \<subseteq> set (users w)" and "list_all (\<lambda>h. role h = ''host'') hs"
  shows "ends (\<lambda>(e, w'). adds_users w w')
              (\<lambda>(w', hs'). adds_users w w' \<and> set hs' \<subseteq> set (users w') \<and>
                 list_all (\<lambda>h. role h = ''host'') hs')
              (fallback_host uq hs w)"
proof (cases "hs = []")
  case False
  with assms show ?thesis
    by (simp add: fallback_host_def ends_def adds_users_frame)
next
  case True
  let ?w1 = "stdout_write WARNING ''No hosts created. Creating at least one host for listings.'' w"
  have a1: "adds_users w ?w1"
    by (simp add: adds_users_frame frame_simps)
  have "ends (\<lambda>(e, w'). adds_users w w')
          (\<lambda>(u, w'). adds_users w w' \<and> u \<in> set (users w') \<and> role u = ''host'')
          (create_user uq ''auto_host'' ''auto_host@example.com'' ''Auto'' ''Host'' ''host'' ?w1)"
    by (rule ends_mono [OF create_user_adds [of ?w1]]) (auto intro: adds_users_trans [OF a1])
  with True show ?thesis
    by (auto simp: fallback_host_def ends_def split: sum.splits)
qed

section \<open>Listings\<close>

lemma adds_listings_frame:
  "users w' = users w \<Longrightarrow> listings w' = listings w \<Longrightarrow> bookings w' = bookings w \<Longrightarrow>
   reviews w' = reviews w \<Longrightarrow> adds_listings w w'"
  by (simp add: adds_listings_def)

lemma hosted_cong: "users w' = users w \<Longrightarrow> hosted w' = hosted w"
  by (simp add: hosted_def fun_eq_iff)

lemma create_listing_cases:
  "create_listing dec l0 w = Inl (IntegrityError, skip_clock 2 w) \<or>
   create_listing dec l0 w =
     Inr (new_listing l0 w,
          (skip_clock 2 w)\<lparr>listings := listings w @ [stored_listing dec (new_listing l0 w)]\<rparr>)"
  by (simp add: create_listing_def)

lemma stored_listing_fields:
  "listing_id (stored_listing dec l) = listing_id l"
  "host (stored_listing dec l) = host l"
  "title (stored_listing dec l) = title l"
  "price_per_night (stored_listing dec l) = dec (price_per_night l)"
  by (simp_all add: stored_listing_def)

lemma new_listing_fields:
  "listing_id (new_listing l0 w) = fresh (map listing_id (listings w))"
  "host (new_listing l0 w) = host l0"
  "price_per_night (new_listing l0 w) = price_per_night l0"
  "title (new_listing l0 w) = title l0"
  by (simp_all add: new_listing_def)

lemma listing_of_append:
  "listing_of k w = Some l \<Longrightarrow> listings w' = listings w @ ls \<Longrightarrow> listing_of k w' = Some l"
  by (simp add: listing_of_def find_append_eq)

lemma listing_of_new:
  "listing_of (fresh (map listing_id (listings w))) (w'\<lparr>listings := listings w @ [l]\<rparr>) =
   (if listing_id l = fresh (map listing_id (listings w)) then Some l else None)"
proof -
  have "\<not> list_ex (\<lambda>x. listing_id x = fresh (map listing_id (listings w))) (listings w)"
  proof
    assume "list_ex (\<lambda>x. listing_id x = fresh (map listing_id (listings w))) (listings w)"
    then obtain x where "x \<in> set (listings w)"
      and "listing_id x = fresh (map listing_id (listings w))"
      by (auto simp: list_ex_iff)
    then have "fresh (map listing_id (listings w)) \<in> set (map listing_id (listings w))"
      by (metis image_eqI set_map)
    with fresh_not_in [of "map listing_id (listings w)"] show False by simp
  qed
  then have "find (\<lambda>x. listing_id x = fresh (map listing_id (listings w))) (listings w) = None"
    by (simp add: find_None_iff_not_ex)
  then show ?thesis
    by (simp add: listing_of_def find_append_eq)
qed

lemma known_listings_append:
  "known_listings dec w ls \<Longrightarrow> listings w' = listings w @ new \<Longrightarrow> known_listings dec w' ls"
  by (auto simp: known_listings_def list_all_iff listing_of_def find_append_eq)

lemma known_listings_same:
  "listings w' = listings w \<Longrightarrow> known_listings dec w' ls = known_listings dec w ls"
  by (simp add: known_listings_def listing_of_def)

lemma seed_listing_adds:
  assumes "adds_listings w s" and "known_listings dec s ls" and "h \<in> set (users w)"
    and "role h = ''host''"
  shows "ends (\<lambda>(e, w'). adds_listings w w')
              (\<lambda>(w', ls'). adds_listings w w' \<and> known_listings dec w' ls')
              (seed_listing dec h i (s, ls))"
proof -
  let ?s1 = "skip_unif 1 (skip_rand 11 s)"
  let ?l = "new_listing (listing_kwargs h i s) ?s1"
  let ?s2 = "(skip_clock 2 ?s1)\<lparr>listings := listings ?s1 @ [stored_listing dec ?l]\<rparr>"
  have hl: "hosted w (stored_listing dec ?l)"
    using assms(3,4)
    by (auto simp: hosted_def new_listing_fields stored_listing_fields listing_kwargs_def)
  have fr: "adds_listings w (skip_clock 2 ?s1)"
    using assms(1) by (simp add: adds_listings_def frame_simps)
  have ad: "adds_listings w ?s2"
    using assms(1) hl by (auto simp: adds_listings_def frame_simps)
  have kn: "known_listings dec ?s2 (ls @ [?l])"
  proof -
    have "known_listings dec ?s2 ls"
      by (rule known_listings_append [OF assms(2)]) (simp add: frame_simps)
    moreover have "listing_of (listing_id ?l) ?s2 = Some (stored_listing dec ?l)"
      using listing_of_new [where w = ?s1 and w' = "skip_clock 2 ?s1"
          and l = "stored_listing dec ?l"]
      by (simp add: new_listing_fields stored_listing_fields)
    ultimately show ?thesis
      by (simp add: known_listings_def)
  qed
  from create_listing_cases [of dec "listing_kwargs h i s" ?s1] show ?thesis
  proof
    assume "create_listing dec (listing_kwargs h i s) ?s1 = Inl (IntegrityError, skip_clock 2 ?s1)"
    with fr show ?thesis
      by (simp add: seed_listing_def ends_def)
  next
    assume "create_listing dec (listing_kwargs h i s) ?s1 = Inr (?l, ?s2)"
    moreover have "adds_listings w (stdout_write sty msg ?s2)" for sty msg
      using ad by (simp add: adds_listings_def frame_simps)
    moreover have "known_listings dec (stdout_write sty msg ?s2) (ls @ [?l])" for sty msg
    proof -
      have "listings (stdout_write sty msg ?s2) = listings ?s2"
        by (simp add: stdout_write_def)
      from known_listings_same [OF this] kn show ?thesis by simp
    qed
    ultimately show ?thesis
      by (simp add: seed_listing_def ends_def)
  qed
qed

lemma create_listings_adds:
  assumes "set hs \<subseteq> set (users w)" and "list_all (\<lambda>h. role h = ''host'') hs"
  shows "ends (\<lambda>(e, w'). adds_listings w w')
              (\<lambda>(w', ls). adds_listings w w' \<and> known_listings dec w' ls)
              (create_listings dec hs n w)"
proof -
  let ?E = "\<lambda>(e :: error, w'). adds_listings w w'"
  let ?I = "\<lambda>(w', ls). adds_listings w w' \<and> known_listings dec w' ls"
  have inner: "ends ?E ?I (foldM (seed_listing dec h) xs s)" if "?I s" and "h \<in> set hs" for h xs s
    using that(1)
  proof (rule ends_foldM)
    fix x and s' :: "'a world \<times> 'a listing list"
    assume "?I s'"
    with that(2) assms show "ends ?E ?I (seed_listing dec h x s')"
      by (cases s') (auto intro!: seed_listing_adds simp: list_all_iff)
  qed
  show ?thesis
    unfolding create_listings_def
  proof (rule ends_foldM)
    show "?I (stdout_write NOTICE ''Creating sample listings...'' w, [])"
      by (simp add: adds_listings_frame frame_simps known_listings_def)
  next
    fix h and s :: "'a world \<times> 'a listing list"
    assume "h \<in> set hs" and "?I s"
    then show "ends ?E ?I (foldM (seed_listing dec h) (py_range n) s)"
      by (intro inner)
  qed
qed

section \<open>Bookings\<close>

lemma adds_bookings_frame:
  "users w' = users w \<Longrightarrow> listings w' = listings w \<Longrightarrow> bookings w' = bookings w \<Longrightarrow>
   reviews w' = reviews w \<Longrightarrow> adds_bookings mul dec w w'"
  by (simp add: adds_bookings_def)

lemma priced_cong: "listings w' = listings w \<Longrightarrow> priced_from_draw mul dec w' = priced_from_draw mul dec w"
  by (simp add: priced_from_draw_def listing_of_def fun_eq_iff)

lemma create_booking_cases:
  "create_booking dec b0 w = Inl (IntegrityError, skip_clock 1 w) \<or>
   create_booking dec b0 w =
     Inr (new_booking b0 w,
          (skip_clock 1 w)\<lparr>bookings := bookings w @ [stored_booking dec (new_booking b0 w)]\<rparr>)"
  by (simp add: create_booking_def)

lemma new_booking_priced:
  assumes "listing_of (listing_id l) w = Some (stored_listing dec l)"
  shows "priced_from_draw mul dec w (stored_booking dec (new_booking (booking_kwargs mul guests l s) w'))"
proof -
  let ?b = "stored_booking dec (new_booking (booking_kwargs mul guests l s) w')"
  have "price_per_night (stored_listing dec l) = dec (price_per_night l)
      \<and> total_price ?b = dec (mul (price_per_night l) (check_out_date ?b - check_in_date ?b))"
    by (simp add: stored_listing_def stored_booking_def new_booking_def booking_kwargs_def
        nights_between_def)
  then have "\<exists>p. price_per_night (stored_listing dec l) = dec p
      \<and> total_price ?b = dec (mul p (check_out_date ?b - check_in_date ?b))"
    by blast
  moreover have "booking_property ?b = listing_id l"
    by (simp add: stored_booking_def new_booking_def booking_kwargs_def)
  ultimately show ?thesis
    using assms by (simp add: priced_from_draw_def)
qed

lemma seed_booking_adds:
  assumes "adds_bookings mul dec w s" and "listing_of (listing_id l) w = Some (stored_listing dec l)"
  shows "ends (\<lambda>(e, w'). adds_bookings mul dec w w') (\<lambda>w'. adds_bookings mul dec w w')
              (seed_booking mul dec guests l i s)"
proof (cases "guests = []")
  case True
  with assms(1) show ?thesis
    by (simp add: seed_booking_def ends_def adds_bookings_def frame_simps)
next
  case False
  let ?s1 = "skip_clock 1 (skip_rand 4 s)"
  let ?b = "new_booking (booking_kwargs mul guests l s) ?s1"
  let ?s2 = "(skip_clock 1 ?s1)\<lparr>bookings := bookings ?s1 @ [stored_booking dec ?b]\<rparr>"
  have pb: "priced_from_draw mul dec w (stored_booking dec ?b)"
    by (rule new_booking_priced [OF assms(2)])
  from create_booking_cases [of dec "booking_kwargs mul guests l s" ?s1] show ?thesis
  proof
    assume "create_booking dec (booking_kwargs mul guests l s) ?s1 = Inl (IntegrityError, skip_clock 1 ?s1)"
    with False assms(1) show ?thesis
      by (simp add: seed_booking_def ends_def adds_bookings_def frame_simps)
  next
    assume "create_booking dec (booking_kwargs mul guests l s) ?s1 = Inr (?b, ?s2)"
    with False assms(1) pb show ?thesis
      by (auto simp: seed_booking_def ends_def adds_bookings_def frame_simps)
  qed
qed

lemma create_bookings_adds:
  assumes "known_listings dec w ls"
  shows "ends (\<lambda>(e, w'). adds_bookings mul dec w w') (\<lambda>w'. adds_bookings mul dec w w')
              (create_bookings mul dec ls guests n w)"
proof -
  let ?E = "\<lambda>(e :: error, w'). adds_bookings mul dec w w'"
  let ?I = "\<lambda>w'. adds_bookings mul dec w w'"
  have inner: "ends ?E ?I (foldM (seed_booking mul dec guests l) xs s)" if "?I s" and "l \<in> set ls" for l xs s
    using that(1)
  proof (rule ends_foldM)
    fix x s' assume "?I s'"
    moreover from that(2) assms have "listing_of (listing_id l) w = Some (stored_listing dec l)"
      by (simp add: known_listings_def list_all_iff)
    ultimately show "ends ?E ?I (seed_booking mul dec guests l x s')"
      by (rule seed_booking_adds)
  qed
  show ?thesis
    unfolding create_bookings_def
  proof (rule ends_foldM)
    show "?I (stdout_write NOTICE ''Creating sample bookings...'' w)"
      by (simp add: adds_bookings_frame frame_simps)
  next
    fix l s assume "l \<in> set ls" and "?I s"
    then show "ends ?E ?I (foldM (seed_booking mul dec guests l) (py_range n) s)"
      by (intro inner)
  qed
qed

section \<open>The whole run\<close>

lemma hosted_mono: "hosted w l \<Longrightarrow> users W = users w @ us \<Longrightarrow> hosted W l"
  by (auto simp: hosted_def)

lemma priced_mono:
  assumes "priced_from_draw mul dec w b" and "listings W = listings w @ ls"
  shows "priced_from_draw mul dec W b"
proof (cases "listing_of (booking_property b) w")
  case None
  with assms(1) show ?thesis by (simp add: priced_from_draw_def)
next
  case (Some l)
  then have "listing_of (booking_property b) W = Some l"
    using assms(2) by (rule listing_of_append)
  with Some assms(1) show ?thesis by (simp add: priced_from_draw_def)
qed

lemma seeded_trans:
  assumes "seeded mul dec w w'" and "seeded mul dec w' W"
  shows "seeded mul dec w W"
proof -
  from assms(1) obtain us ls bs rs where
    1: "users w' = users w @ us" "listings w' = listings w @ ls" "list_all (hosted w') ls"
       "bookings w' = bookings w @ bs" "list_all (priced_from_draw mul dec w') bs"
       "reviews w' = reviews w @ rs"
    by (auto simp: seeded_def)
  from assms(2) obtain us' ls' bs' rs' where
    2: "users W = users w' @ us'" "listings W = listings w' @ ls'" "list_all (hosted W) ls'"
       "bookings W = bookings w' @ bs'" "list_all (priced_from_draw mul dec W) bs'"
       "reviews W = reviews w' @ rs'"
    by (auto simp: seeded_def)
  have h: "list_all (hosted W) (ls @ ls')"
    using 1(3) 2(1,3) by (auto simp: list_all_iff intro: hosted_mono)
  have p: "list_all (priced_from_draw mul dec W) (bs @ bs')"
    using 1(5) 2(2,5) by (auto simp: list_all_iff intro: priced_mono)
  have "users W = users w @ (us @ us')" "listings W = listings w @ (ls @ ls')"
    "bookings W = bookings w @ (bs @ bs')" "reviews W = reviews w @ (rs @ rs')"
    using 1 2 by simp_all
  with h p assms show ?thesis
    unfolding seeded_def by blast
qed

lemma adds_users_seeded: "adds_users w w' \<Longrightarrow> seeded mul dec w w'"
  by (auto simp: adds_users_def seeded_def unique_reviews_def)

lemma adds_listings_seeded:
  assumes "adds_listings w w'"
  shows "seeded mul dec w w'"
proof -
  from assms have "users w' = users w" by (simp add: adds_listings_def)
  then have "hosted w' = hosted w" by (rule hosted_cong)
  with assms show ?thesis
    by (auto simp: adds_listings_def seeded_def unique_reviews_def)
qed

lemma adds_bookings_seeded:
  assumes "adds_bookings mul dec w w'"
  shows "seeded mul dec w w'"
proof -
  from assms have "listings w' = listings w" by (simp add: adds_bookings_def)
  then have "priced_from_draw mul dec w' = priced_from_draw mul dec w" by (rule priced_cong)
  with assms show ?thesis
    by (auto simp: adds_bookings_def seeded_def unique_reviews_def)
qed

lemma keeps_reviews_seeded: "keeps_reviews w w' \<Longrightarrow> seeded mul dec w w'"
  by (auto simp: keeps_reviews_def seeded_def)

lemma seeded_write:
  assumes "seeded mul dec w w'"
  shows "seeded mul dec w (stdout_write sty msg w')"
proof -
  have "hosted (w'\<lparr>out := x\<rparr>) = hosted w'" for x
    by (rule hosted_cong) simp
  moreover have "priced_from_draw mul dec (w'\<lparr>out := x\<rparr>) = priced_from_draw mul dec w'" for x
    by (rule priced_cong) simp
  ultimately show ?thesis
    using assms by (simp add: seeded_def stdout_write_def unique_reviews_def)
qed

lemma seed_reviews_seeded:
  "ends (\<lambda>(e, W). seeded mul dec w W) (seeded mul dec w) (seed_reviews opts us ls w)"
  unfolding seed_reviews_def
proof (rule ends_bind, rule ends_mono [OF create_reviews_keeps])
  fix e :: "error \<times> 'a world"
  assume "case e of (e, w') \<Rightarrow> keeps_reviews w w'"
  then show "case e of (e, W) \<Rightarrow> seeded mul dec w W"
    by (auto intro: keeps_reviews_seeded)
next
  fix a assume "keeps_reviews w a"
  then show "ends (\<lambda>(e, W). seeded mul dec w W) (seeded mul dec w)
               (Inr (stdout_write SUCCESS ''Database seeding completed successfully!'' a))"
    by (simp add: ends_def seeded_write keeps_reviews_seeded)
qed

lemma seed_bookings_seeded:
  assumes "known_listings dec w ls"
  shows "ends (\<lambda>(e, W). seeded mul dec w W) (seeded mul dec w) (seed_bookings mul dec opts us (w, ls))"
  unfolding seed_bookings_def prod.case
proof (rule ends_bind, rule ends_mono [OF create_bookings_adds [OF assms]])
  fix e :: "error \<times> 'a world"
  assume "case e of (e, w') \<Rightarrow> adds_bookings mul dec w w'"
  then show "case e of (e, W) \<Rightarrow> seeded mul dec w W"
    by (auto intro: adds_bookings_seeded)
next
  fix a assume a: "adds_bookings mul dec w a"
  show "ends (\<lambda>(e, W). seeded mul dec w W) (seeded mul dec w) (seed_reviews opts us ls a)"
    by (rule ends_mono [OF seed_reviews_seeded [of mul dec a]])
      (auto intro: seeded_trans [OF adds_bookings_seeded [OF a]])
qed

lemma seed_listings_seeded:
  assumes "set hs \<subseteq> set (users w)" and "list_all (\<lambda>h. role h = ''host'') hs"
  shows "ends (\<lambda>(e, W). seeded mul dec w W) (seeded mul dec w) (seed_listings mul dec opts us (w, hs))"
  unfolding seed_listings_def prod.case
proof (rule ends_bind, rule ends_mono [OF create_listings_adds [OF assms]])
  fix e :: "error \<times> 'a world"
  assume "case e of (e, w') \<Rightarrow> adds_listings w w'"
  then show "case e of (e, W) \<Rightarrow> seeded mul dec w W"
    by (auto intro: adds_listings_seeded)
next
  fix a :: "'a world \<times> 'a listing list"
  assume "case a of (w', ls) \<Rightarrow> adds_listings w w' \<and> known_listings dec w' ls"
  then obtain w' ls where a: "a = (w', ls)" "adds_listings w w'" "known_listings dec w' ls"
    by (cases a) auto
  show "ends (\<lambda>(e, W). seeded mul dec w W) (seeded mul dec w) (seed_bookings mul dec opts us a)"
    unfolding a(1)
    by (rule ends_mono [OF seed_bookings_seeded [OF a(3), of mul]])
      (auto intro: seeded_trans [OF adds_listings_seeded [OF a(2)]])
qed

lemma seed_hosts_seeded:
  assumes "set us \<subseteq> set (users w)"
  shows "ends (\<lambda>(e, W). seeded mul dec w W) (seeded mul dec w) (seed_hosts mul dec uq opts (w, us))"
  unfolding seed_hosts_def prod.case
proof (rule ends_bind, rule ends_mono [OF fallback_host_adds])
  show "set (filter (\<lambda>u. role u = ''host'') us) \<subseteq> set (users w)"
    using assms by auto
  show "list_all (\<lambda>h. role h = ''host'') (filter (\<lambda>u. role u = ''host'') us)"
    by (simp add: list_all_iff)
next
  fix e :: "error \<times> 'a world"
  assume "case e of (e, w') \<Rightarrow> adds_users w w'"
  then show "case e of (e, W) \<Rightarrow> seeded mul dec w W"
    by (auto intro: adds_users_seeded)
next
  fix a :: "'a world \<times> user list"
  assume "case a of (w', hs') \<Rightarrow> adds_users w w' \<and> set hs' \<subseteq> set (users w') \<and>
            list_all (\<lambda>h. role h = ''host'') hs'"
  then obtain w' hs where a: "a = (w', hs)" "adds_users w w'" "set hs \<subseteq> set (users w')"
      "list_all (\<lambda>h. role h = ''host'') hs"
    by (cases a) auto
  show "ends (\<lambda>(e, W). seeded mul dec w W) (seeded mul dec w) (seed_listings mul dec opts us a)"
    unfolding a(1)
    by (rule ends_mono [OF seed_listings_seeded [OF a(3,4), of mul]])
      (auto intro: seeded_trans [OF adds_users_seeded [OF a(2)]])
qed

lemma seed_seeded:
  "ends (\<lambda>(e, W). seeded mul dec w W) (seeded mul dec w) (seed mul dec uq opts w)"
  unfolding seed_def
proof (rule ends_bind, rule ends_mono [OF create_users_adds])
  fix e :: "error \<times> 'a world"
  assume "case e of (e, w') \<Rightarrow> adds_users w w'"
  then show "case e of (e, W) \<Rightarrow> seeded mul dec w W"
    by (auto intro: adds_users_seeded)
next
  fix a :: "'a world \<times> user list"
  assume "case a of (w', us) \<Rightarrow> adds_users w w' \<and> set us \<subseteq> set (users w')"
  then obtain w' us where a: "a = (w', us)" "adds_users w w'" "set us \<subseteq> set (users w')"
    by (cases a) auto
  show "ends (\<lambda>(e, W). seeded mul dec w W) (seeded mul dec w) (seed_hosts mul dec uq opts a)"
    unfolding a(1)
    by (rule ends_mono [OF seed_hosts_seeded [OF a(3), of mul]])
      (auto intro: seeded_trans [OF adds_users_seeded [OF a(2)]])
qed

lemma handle_seeded: "seeded mul dec (prepare opts w) (final (handle mul dec uq opts w))"
  using seed_seeded [of mul dec "prepare opts w" uq opts]
  by (auto simp: handle_def final_def ends_def split: sum.splits)

lemma prepare_tables:
  "users (prepare opts w) = (if clear opts then filter is_superuser (users w) else users w)"
  "listings (prepare opts w) = (if clear opts then [] else listings w)"
  "bookings (prepare opts w) = (if clear opts then [] else bookings w)"
  "reviews (prepare opts w) = (if clear opts then [] else reviews w)"
  by (simp_all add: prepare_def clear_existing_tables stdout_write_def)

lemma prepare_unique: "unique_reviews w \<Longrightarrow> unique_reviews (prepare opts w)"
  by (simp add: unique_reviews_def prepare_tables)

lemma prepare_distinct:
  "distinct (map uid (users w)) \<Longrightarrow> distinct (map uid (users (prepare opts w)))"
  by (simp add: prepare_tables distinct_map_filter)

lemma distinct_count_le_1:
  "distinct (map f xs) \<Longrightarrow> length (filter (\<lambda>x. f x = y) xs) \<le> Suc 0"
proof (induction xs)
  case Nil
  show ?case by simp
next
  case (Cons x xs)
  show ?case
  proof (cases "f x = y")
    case True
    with Cons.prems have "filter (\<lambda>x. f x = y) xs = []"
      by (auto simp: filter_empty_conv image_iff)
    with True show ?thesis by simp
  next
    case False
    with Cons show ?thesis by simp
  qed
qed

lemma unique_reviews_count:
  assumes "unique_reviews w"
  shows "length (reviews_of k u w) \<le> 1"
proof -
  have "reviews_of k u w =
        filter (\<lambda>r. (review_property r, review_user r) = (k, u)) (reviews w)"
    by (simp add: reviews_of_def)
  with distinct_count_le_1 [of "\<lambda>r. (review_property r, review_user r)" "reviews w" "(k, u)"] assms
  show ?thesis by (simp add: unique_reviews_def)
qed

lemma review_exists_count: "review_exists k u w \<longleftrightarrow> reviews_of k u w \<noteq> []"
  by (auto simp: review_exists_def reviews_of_def list_ex_iff filter_empty_conv)

lemma create_review_unique:
  "unique_reviews w \<Longrightarrow> create_review r0 w = Inr (r, w') \<Longrightarrow> unique_reviews w'"
  using create_review_keeps [of w r0] by (simp add: ends_def keeps_reviews_def)

text \<open>
  C1, as the code has it. The schema rejects a second review of a (listing, user) pair
  with IntegrityError and stores nothing, and an accepted insertion keeps the pairs
  unique. The seed command draws the reviewer and, when the pair already has a review,
  creates nothing and raises nothing: it writes the warning line "User ... already
  reviewed ..., skipping." and goes on. So a run started on unique pairs ends, also when
  it is aborted, on unique pairs: no pair has more than one review, and every reviewed
  pair has exactly one.
\<close>

theorem one_review_per_pair:
  "(review_exists (review_property r0) (review_user r0) w \<longrightarrow>
      create_review r0 w = Inl (IntegrityError, skip_clock 1 w) \<and>
      reviews (skip_clock 1 w) = reviews w)
   \<and> (unique_reviews w \<and> create_review r0 w = Inr (r, w') \<longrightarrow> unique_reviews w')
   \<and> (guests \<noteq> [] \<and> review_exists (listing_id l) (uid (choice guests (rand w 0))) w \<longrightarrow>
        seed_review guests l i w =
          Inr (stdout_write WARNING
                 (''User '' @ email (choice guests (rand w 0)) @ '' already reviewed '' @ title l
                  @ '', skipping.'') (skip_rand 1 w)))
   \<and> (unique_reviews w \<longrightarrow>
        unique_reviews (final (handle mul dec uq opts w)) \<and>
        (\<forall>k u. length (reviews_of k u (final (handle mul dec uq opts w))) \<le> 1) \<and>
        (\<forall>k u. review_exists k u (final (handle mul dec uq opts w)) \<longrightarrow>
               length (reviews_of k u (final (handle mul dec uq opts w))) = 1))"
proof -
  have a: "create_review r0 w = Inl (IntegrityError, skip_clock 1 w)"
    if "review_exists (review_property r0) (review_user r0) w"
    using that by (simp add: create_review_def)
  have b: "reviews (skip_clock 1 w) = reviews w"
    by (simp add: skip_clock_def)
  have c: "unique_reviews w'" if "unique_reviews w" "create_review r0 w = Inr (r, w')"
    using that by (rule create_review_unique)
  have d: "seed_review guests l i w =
          Inr (stdout_write WARNING
                 (''User '' @ email (choice guests (rand w 0)) @ '' already reviewed '' @ title l
                  @ '', skipping.'') (skip_rand 1 w))"
    if "guests \<noteq> []" "review_exists (listing_id l) (uid (choice guests (rand w 0))) w"
    using that by (simp add: seed_review_def)
  have e: "unique_reviews (final (handle mul dec uq opts w))" if "unique_reviews w"
    using handle_seeded [of mul dec opts w uq] prepare_unique [OF that, of opts]
    by (simp add: seeded_def)
  have f: "length (reviews_of k u (final (handle mul dec uq opts w))) \<le> 1" if "unique_reviews w" for k u
    using unique_reviews_count [OF e [OF that]] .
  have g: "length (reviews_of k u (final (handle mul dec uq opts w))) = 1"
    if "unique_reviews w" "review_exists k u (final (handle mul dec uq opts w))" for k u
    using f [OF that(1), of k u] that(2)
    by (cases "reviews_of k u (final (handle mul dec uq opts w))") (simp_all add: review_exists_count)
  from a b c d e f g show ?thesis by blast
qed

text \<open>
  What every run establishes of the bookings it creates (also when it is aborted): the
  row of the booking's listing keeps the conversion of a price, and the booking's row
  keeps the conversion of that price times the nights from check-in to check-out.
\<close>

lemma created_bookings_priced_from_draw:
  "list_all (priced_from_draw mul dec (final (handle mul dec uq opts w)))
     (created_bookings opts w (final (handle mul dec uq opts w)))"
proof -
  from handle_seeded [of mul dec opts w uq] obtain bs where
    "bookings (final (handle mul dec uq opts w)) = bookings (prepare opts w) @ bs"
    "list_all (priced_from_draw mul dec (final (handle mul dec uq opts w))) bs"
    by (auto simp: seeded_def)
  then show ?thesis
    by (simp add: created_bookings_def)
qed

lemma hosted_owned:
  assumes "distinct (map uid (users W))" and "hosted W l"
  shows "owned_by_host W l"
proof -
  from assms(2) obtain h where h: "h \<in> set (users W)" "uid h = host l" "role h = ''host''"
    by (auto simp: hosted_def)
  from find_distinct_key [OF assms(1) h(1)] h(2)
  have "user_of (host l) W = Some h" by (simp add: user_of_def)
  with h(3) show ?thesis by (simp add: owned_by_host_def)
qed

text \<open>
  C10. Started on a user table with distinct keys, a run leaves (also when it is
  aborted) every listing it created with a host that is a row of the user table with
  role host.
\<close>

theorem created_listings_owned_by_hosts:
  assumes "distinct (map uid (users w))"
  shows "list_all (owned_by_host (final (handle mul dec uq opts w)))
           (created_listings opts w (final (handle mul dec uq opts w)))"
proof -
  let ?W = "final (handle mul dec uq opts w)"
  from handle_seeded [of mul dec opts w uq] prepare_distinct [OF assms, of opts]
  obtain ls where "distinct (map uid (users ?W))"
    "listings ?W = listings (prepare opts w) @ ls" "list_all (hosted ?W) ls"
    by (auto simp: seeded_def)
  then show ?thesis
    by (auto simp: created_listings_def list_all_iff intro: hosted_owned)
qed

theorem one_review_per_pair_witness:
  "review_exists 1 2 sample_world
   \<and> create_review (sample_review 0 1 2 0) sample_world = Inl (IntegrityError, skip_clock 1 sample_world)
   \<and> seed_review [sample_user 2 ''ann'' ''guest'' False] (sample_listing 1 1) 0 sample_world =
       Inr (stdout_write WARNING ''User ann@example.com already reviewed Loft, skipping.''
              (skip_rand 1 sample_world))
   \<and> unique_reviews sample_world
   \<and> unique_reviews (final (handle times_nights quantize same_username (opts_of False 1 1 1 2) sample_world))
   \<and> length (reviews_of 3 4 (final (handle times_nights quantize same_username (opts_of False 1 1 1 2) sample_world))) = 1"
proof -
  let ?ann = "sample_user 2 ''ann'' ''guest'' False"
  let ?W = "final (handle times_nights quantize same_username (opts_of False 1 1 1 2) sample_world)"
  have h0: "review_exists 1 2 sample_world"
    by code_simp
  have h1: "review_exists (review_property (sample_review 0 1 2 0))
              (review_user (sample_review 0 1 2 0)) sample_world"
    by code_simp
  have h2: "[?ann] \<noteq> [] \<and>
            review_exists (listing_id (sample_listing 1 1))
              (uid (choice [?ann] (rand sample_world 0))) sample_world"
    by code_simp
  have h3: "unique_reviews sample_world"
    by code_simp
  have h4: "review_exists 3 4 ?W"
    by code_simp
  have m: "''User '' @ email (choice [?ann] (rand sample_world 0)) @ '' already reviewed ''
             @ title (sample_listing 1 1) @ '', skipping.''
           = ''User ann@example.com already reviewed Loft, skipping.''"
    by code_simp
  note t = one_review_per_pair [where ?r0.0 = "sample_review 0 1 2 0" and w = sample_world
      and guests = "[?ann]" and l = "sample_listing 1 1" and i = 0 and mul = times_nights and dec = quantize
      and uq = same_username and opts = "opts_of False 1 1 1 2"]
  from t h1 have c1: "create_review (sample_review 0 1 2 0) sample_world
                        = Inl (IntegrityError, skip_clock 1 sample_world)"
    by blast
  from t h2 have c2: "seed_review [?ann] (sample_listing 1 1) 0 sample_world =
       Inr (stdout_write WARNING
              (''User '' @ email (choice [?ann] (rand sample_world 0)) @ '' already reviewed ''
               @ title (sample_listing 1 1) @ '', skipping.'') (skip_rand 1 sample_world))"
    by blast
  from t h3 have c3: "unique_reviews ?W"
    and c4: "\<forall>k u. review_exists k u ?W \<longrightarrow> length (reviews_of k u ?W) = 1"
    by blast+
  from c4 h4 have c5: "length (reviews_of 3 4 ?W) = 1"
    by blast
  from h0 c1 c2 [unfolded m] h3 c3 c5 show ?thesis
    by blast
qed

text \<open>
  C1 as stated fails on "silently": on a database where ann has reviewed the listing,
  the loop body creates no review and raises nothing, but it writes a warning line; and
  a whole run that draws the same reviewer twice for its new listing writes that line.
\<close>

theorem review_skip_writes_a_warning:
  "review_exists (listing_id (sample_listing 1 1))
     (uid (choice [sample_user 2 ''ann'' ''guest'' False] (rand sample_world 0))) sample_world
   \<and> succeeded (seed_review [sample_user 2 ''ann'' ''guest'' False] (sample_listing 1 1) 0 sample_world)
   \<and> map review_id (reviews (final (seed_review [sample_user 2 ''ann'' ''guest'' False]
                                      (sample_listing 1 1) 0 sample_world))) = [1, 2]
   \<and> out sample_world = []
   \<and> out (final (seed_review [sample_user 2 ''ann'' ''guest'' False] (sample_listing 1 1) 0 sample_world))
       = [(WARNING, ''User ann@example.com already reviewed Loft, skipping.'')]
   \<and> List.member
        (out (final (handle times_nights quantize same_username (opts_of False 1 1 1 2) sample_world)))
        (WARNING, ''User user0@example.com already reviewed Auto'' @ [CHR 0x27]
                  @ ''s Cozy Room 1, skipping.'')"
  by code_simp

text \<open>
  C2, at the failing input: an empty database, one user, one listing per host, one
  booking per listing, \<^verbatim>\<open>random.uniform\<close> returning 123.456 and every other draw
  its first value. The run completes. The listing's row keeps the price 123.46, the
  booking is for 2 nights and its row keeps the total 246.91, which is what the column
  keeps of 2 times 123.456; 2 times the listing's price per night is 246.92.
\<close>

theorem stored_total_is_not_nights_times_stored_price:
  "succeeded (handle times_nights quantize same_username (opts_of False 1 1 1 0)
                (empty_world (123456 / 1000)))
   \<and> map price_per_night
        (created_listings (opts_of False 1 1 1 0) (empty_world (123456 / 1000))
          (final (handle times_nights quantize same_username (opts_of False 1 1 1 0)
                    (empty_world (123456 / 1000))))) = [12346 / 100]
   \<and> map (\<lambda>b. check_out_date b - check_in_date b)
        (created_bookings (opts_of False 1 1 1 0) (empty_world (123456 / 1000))
          (final (handle times_nights quantize same_username (opts_of False 1 1 1 0)
                    (empty_world (123456 / 1000))))) = [2]
   \<and> map total_price
        (created_bookings (opts_of False 1 1 1 0) (empty_world (123456 / 1000))
          (final (handle times_nights quantize same_username (opts_of False 1 1 1 0)
                    (empty_world (123456 / 1000))))) = [24691 / 100]
   \<and> quantize (times_nights (123456 / 1000) 2) = 24691 / 100
   \<and> times_nights (12346 / 100) 2 = 24692 / 100
   \<and> \<not> list_all
          (priced_by_nights times_nights
            (final (handle times_nights quantize same_username (opts_of False 1 1 1 0)
                      (empty_world (123456 / 1000)))))
          (created_bookings (opts_of False 1 1 1 0) (empty_world (123456 / 1000))
            (final (handle times_nights quantize same_username (opts_of False 1 1 1 0)
                      (empty_world (123456 / 1000)))))"
  by code_simp

theorem created_listings_owned_by_hosts_witness:
  "distinct (map uid (users sample_world))
   \<and> map host (created_listings (opts_of False 1 1 1 2) sample_world
        (final (handle times_nights quantize same_username (opts_of False 1 1 1 2) sample_world))) = [5]
   \<and> map role (filter (\<lambda>u. uid u = 5)
        (users (final (handle times_nights quantize same_username (opts_of False 1 1 1 2) sample_world))))
       = [''host'']
   \<and> list_all (owned_by_host
         (final (handle times_nights quantize same_username (opts_of False 1 1 1 2) sample_world)))
        (created_listings (opts_of False 1 1 1 2) sample_world
          (final (handle times_nights quantize same_username (opts_of False 1 1 1 2) sample_world)))"
proof -
  let ?O = "opts_of False 1 1 1 2"
  let ?W = "final (handle times_nights quantize same_username ?O sample_world)"
  have d: "distinct (map uid (users sample_world))"
    by code_simp
  have e1: "map host (created_listings ?O sample_world ?W) = [5]"
    by code_simp
  have e2: "map role (filter (\<lambda>u. uid u = 5) (users ?W)) = [''host'']"
    by code_simp
  from created_listings_owned_by_hosts [OF d, of times_nights quantize same_username ?O] d e1 e2
  show ?thesis by simp
qed

section \<open>No guests\<close>

lemma foldM_warn:
  assumes "\<And>x s. f x s = Inr (s\<lparr>out := out s @ [m]\<rparr>)"
  shows "foldM f xs s = Inr (s\<lparr>out := out s @ replicate (length xs) m\<rparr>)"
proof (induction xs arbitrary: s)
  case Nil
  show ?case by simp
next
  case (Cons x xs)
  have "replicate (length xs) m @ [m] = replicate (Suc (length xs)) m"
    by (simp add: replicate_append_same)
  then have "[m] @ replicate (length xs) m = m # replicate (length xs) m"
    by simp
  with Cons.IH [of "s\<lparr>out := out s @ [m]\<rparr>"] show ?case
    by (simp add: assms)
qed

lemma foldM_warn_each:
  assumes "\<And>l s. g l s = Inr (s\<lparr>out := out s @ ms l\<rparr>)"
  shows "foldM g ls s = Inr (s\<lparr>out := out s @ concat (map ms ls)\<rparr>)"
proof (induction ls arbitrary: s)
  case Nil
  show ?case by simp
next
  case (Cons l ls)
  from Cons.IH [of "s\<lparr>out := out s @ ms l\<rparr>"] show ?case
    by (simp add: assms)
qed

lemma seed_booking_no_guests:
  "seed_booking mul dec [] l i s =
   Inr (s\<lparr>out := out s @ [(WARNING, ''No guest users available to create booking for '' @ title l)]\<rparr>)"
  by (simp add: seed_booking_def stdout_write_def)

lemma seed_review_no_guests:
  "seed_review [] l i s =
   Inr (s\<lparr>out := out s @ [(WARNING, ''No guest users available to create review for '' @ title l)]\<rparr>)"
  by (simp add: seed_review_def stdout_write_def)

lemma create_bookings_no_guests:
  "create_bookings mul dec ls [] n w =
   Inr (w\<lparr>out := out w @ (NOTICE, ''Creating sample bookings...'') # no_guest_warnings ''booking'' ls n\<rparr>)"
proof -
  have inner: "foldM (seed_booking mul dec [] l) (py_range n) s =
      Inr (s\<lparr>out := out s @ replicate (nat n)
             (WARNING, ''No guest users available to create booking for '' @ title l)\<rparr>)" for l s
    using foldM_warn [of "seed_booking mul dec [] l", OF seed_booking_no_guests, of "py_range n" s]
    by (simp add: py_range_def)
  show ?thesis
    unfolding create_bookings_def
    by (subst foldM_warn_each [of _ "\<lambda>l. replicate (nat n)
           (WARNING, ''No guest users available to create booking for '' @ title l)", OF inner])
      (simp add: stdout_write_def no_guest_warnings_def)
qed

lemma create_reviews_no_guests:
  "create_reviews ls [] n w =
   Inr (w\<lparr>out := out w @ (NOTICE, ''Creating sample reviews...'') # no_guest_warnings ''review'' ls n\<rparr>)"
proof -
  have inner: "foldM (seed_review [] l) (py_range n) s =
      Inr (s\<lparr>out := out s @ replicate (nat n)
             (WARNING, ''No guest users available to create review for '' @ title l)\<rparr>)" for l s
    using foldM_warn [of "seed_review [] l", OF seed_review_no_guests, of "py_range n" s]
    by (simp add: py_range_def)
  show ?thesis
    unfolding create_reviews_def
    by (subst foldM_warn_each [of _ "\<lambda>l. replicate (nat n)
           (WARNING, ''No guest users available to create review for '' @ title l)", OF inner])
      (simp add: stdout_write_def no_guest_warnings_def)
qed

lemma seed_bookings_no_guests:
  assumes "filter (\<lambda>u. role u = ''guest'') us = []"
  shows "seed_bookings mul dec opts us (w, ls) = Inr (w\<lparr>out := out w @ no_guest_output opts ls\<rparr>)"
  by (simp add: seed_bookings_def seed_reviews_def assms create_bookings_no_guests
      create_reviews_no_guests bind_Inr stdout_write_def no_guest_output_def)

text \<open>
  C9. When the users of the run include no guest, booking and review generation raise
  nothing and create nothing: for every listing and every planned booking, and then for
  every listing and every planned review, one warning line is written, and the run ends
  with its success line. So a run whose user and listing loops have completed with no
  guest completes, and leaves the tables as the listing loop left them.
\<close>

theorem no_guests_is_not_fatal:
  assumes "filter (\<lambda>u. role u = ''guest'') us = []"
  shows "create_bookings mul dec ls (filter (\<lambda>u. role u = ''guest'') us) nb w =
           Inr (w\<lparr>out := out w @ (NOTICE, ''Creating sample bookings...'')
                               # no_guest_warnings ''booking'' ls nb\<rparr>)
       \<and> create_reviews ls (filter (\<lambda>u. role u = ''guest'') us) nr w =
           Inr (w\<lparr>out := out w @ (NOTICE, ''Creating sample reviews...'')
                               # no_guest_warnings ''review'' ls nr\<rparr>)
       \<and> seed_bookings mul dec opts us (w, ls) = Inr (w\<lparr>out := out w @ no_guest_output opts ls\<rparr>)
       \<and> (create_users uq (num_users opts) (prepare opts w0) = Inr (w1, us) \<and>
          fallback_host uq (filter (\<lambda>u. role u = ''host'') us) w1 = Inr (w2, hs) \<and>
          create_listings dec hs (num_listings_per_host opts) w2 = Inr (w, ls)
          \<longrightarrow> handle mul dec uq opts w0 = Inr (w\<lparr>out := out w @ no_guest_output opts ls\<rparr>))"
  using seed_bookings_no_guests [OF assms, of mul dec opts w ls]
  by (auto simp: assms create_bookings_no_guests create_reviews_no_guests handle_def seed_def
      seed_hosts_def seed_listings_def bind_Inr)

theorem no_guests_is_not_fatal_witness:
  "filter (\<lambda>u. role u = ''guest'') [sample_user 3 ''bob'' ''host'' False] = []
   \<and> seed_bookings times_nights quantize (opts_of False 1 1 2 1) [sample_user 3 ''bob'' ''host'' False]
        (sample_world, [sample_listing 2 3])
       = Inr (sample_world\<lparr>out :=
           [(NOTICE, ''Creating sample bookings...''),
            (WARNING, ''No guest users available to create booking for Loft''),
            (WARNING, ''No guest users available to create booking for Loft''),
            (NOTICE, ''Creating sample reviews...''),
            (WARNING, ''No guest users available to create review for Loft''),
            (SUCCESS, ''Database seeding completed successfully!'')]\<rparr>)
   \<and> succeeded (handle times_nights quantize same_username (opts_of False 1 1 2 1) host_draws)
   \<and> map role (users (final (handle times_nights quantize same_username (opts_of False 1 1 2 1) host_draws)))
       = [''host'']
   \<and> length (listings (final (handle times_nights quantize same_username (opts_of False 1 1 2 1) host_draws))) = 1
   \<and> bookings (final (handle times_nights quantize same_username (opts_of False 1 1 2 1) host_draws)) = []
   \<and> reviews (final (handle times_nights quantize same_username (opts_of False 1 1 2 1) host_draws)) = []
   \<and> length (filter (\<lambda>m. fst m = WARNING)
        (out (final (handle times_nights quantize same_username (opts_of False 1 1 2 1) host_draws)))) = 3"
proof -
  let ?us = "[sample_user 3 ''bob'' ''host'' False]"
  have g: "filter (\<lambda>u. role u = ''guest'') ?us = []"
    by code_simp
  have o: "out sample_world @ no_guest_output (opts_of False 1 1 2 1) [sample_listing 2 3] =
           [(NOTICE, ''Creating sample bookings...''),
            (WARNING, ''No guest users available to create booking for Loft''),
            (WARNING, ''No guest users available to create booking for Loft''),
            (NOTICE, ''Creating sample reviews...''),
            (WARNING, ''No guest users available to create review for Loft''),
            (SUCCESS, ''Database seeding completed successfully!'')]"
    by code_simp
  have r: "succeeded (handle times_nights quantize same_username (opts_of False 1 1 2 1) host_draws)
   \<and> map role (users (final (handle times_nights quantize same_username (opts_of False 1 1 2 1) host_draws)))
       = [''host'']
   \<and> length (listings (final (handle times_nights quantize same_username (opts_of False 1 1 2 1) host_draws))) = 1
   \<and> bookings (final (handle times_nights quantize same_username (opts_of False 1 1 2 1) host_draws)) = []
   \<and> reviews (final (handle times_nights quantize same_username (opts_of False 1 1 2 1) host_draws)) = []
   \<and> length (filter (\<lambda>m. fst m = WARNING)
        (out (final (handle times_nights quantize same_username (opts_of False 1 1 2 1) host_draws)))) = 3"
    by code_simp
  from no_guests_is_not_fatal [OF g, of times_nights quantize "[sample_listing 2 3]" _ sample_world _
      "opts_of False 1 1 2 1"]
  have "seed_bookings times_nights quantize (opts_of False 1 1 2 1) ?us (sample_world, [sample_listing 2 3])
        = Inr (sample_world\<lparr>out := out sample_world
                 @ no_guest_output (opts_of False 1 1 2 1) [sample_listing 2 3]\<rparr>)"
    by blast
  with g o r show ?thesis
    by simp
qed

section \<open>Loops that cannot fail\<close>

lemma foldM_count:
  assumes "I k s"
    and "\<And>j x s. I j s \<Longrightarrow> x \<in> set xs \<Longrightarrow> \<exists>s'. f x s = Inr s' \<and> I (Suc j) s'"
  shows "\<exists>s'. foldM f xs s = Inr s' \<and> I (k + length xs) s'"
  using assms
proof (induction xs arbitrary: k s)
  case Nil
  then show ?case by simp
next
  case (Cons x xs)
  from Cons.prems obtain s1 where s1: "f x s = Inr s1" "I (Suc k) s1"
    by (meson list.set_intros(1))
  have "\<exists>s'. foldM f xs s1 = Inr s' \<and> I (Suc k + length xs) s'"
  proof (rule Cons.IH [OF s1(2)])
    fix j y t assume "I j t" "y \<in> set xs"
    then show "\<exists>s'. f y t = Inr s' \<and> I (Suc j) s'"
      using Cons.prems(2) by simp
  qed
  with s1(1) show ?case by simp
qed

lemma choice_mem: "xs \<noteq> [] \<Longrightarrow> choice xs r \<in> set xs"
  by (simp add: choice_def)

lemma uid_known: "u \<in> set (users w) \<Longrightarrow> list_ex (\<lambda>v. uid v = uid u) (users w)"
  by (auto simp: list_ex_iff)

lemma seed_listing_ok:
  assumes "listing_loop dec w hs m s" and "h \<in> set hs" and "set hs \<subseteq> set (users w)"
  shows "\<exists>s'. seed_listing dec h i s = Inr s' \<and> listing_loop dec w hs (Suc m) s'"
proof -
  obtain v ls where s: "s = (v, ls)" by (cases s)
  from assms have "h \<in> set (users v)"
    by (auto simp: listing_loop_def s)
  then have "list_ex (\<lambda>u. uid u = host (listing_kwargs h i v)) (users (skip_unif 1 (skip_rand 11 v)))"
    by (auto simp: list_ex_iff listing_kwargs_def frame_simps)
  then show ?thesis
    using assms(1,2)
    by (simp add: seed_listing_def create_listing_def s listing_loop_def frame_simps
        new_listing_fields listing_kwargs_def)
qed

lemma create_listings_ok:
  assumes "set hs \<subseteq> set (users w)"
  shows "\<exists>s'. create_listings dec hs n w = Inr s' \<and> listing_loop dec w hs (length hs * nat n) s'"
proof -
  have inner: "\<exists>s'. foldM (seed_listing dec h) (py_range n) s = Inr s' \<and> listing_loop dec w hs (m + nat n) s'"
    if "listing_loop dec w hs m s" "h \<in> set hs" for h m s
    using foldM_count [of "listing_loop dec w hs" m s "py_range n" "seed_listing dec h"] that assms
      seed_listing_ok [of dec w hs _ _ h]
    by (simp add: py_range_def)
  have start: "listing_loop dec w hs (0 * nat n) (stdout_write NOTICE ''Creating sample listings...'' w, [])"
    by (simp add: listing_loop_def frame_simps)
  have "\<exists>s'. foldM (\<lambda>h. foldM (seed_listing dec h) (py_range n)) hs
               (stdout_write NOTICE ''Creating sample listings...'' w, []) = Inr s'
             \<and> listing_loop dec w hs ((0 + length hs) * nat n) s'"
  proof (rule foldM_count [of "\<lambda>j. listing_loop dec w hs (j * nat n)" 0, OF start])
    fix j h s assume "listing_loop dec w hs (j * nat n) s" "h \<in> set hs"
    from inner [OF this] show "\<exists>s'. foldM (seed_listing dec h) (py_range n) s = Inr s'
        \<and> listing_loop dec w hs (Suc j * nat n) s'"
      by (simp add: add.commute)
  qed
  then show ?thesis
    by (simp add: create_listings_def)
qed

lemma seed_booking_ok:
  assumes "booking_loop w m s" and "guests \<noteq> []" and "set guests \<subseteq> set (users w)"
    and "list_ex (\<lambda>x. listing_id x = listing_id l) (listings w)"
  shows "\<exists>s'. seed_booking mul dec guests l i s = Inr s' \<and> booking_loop w (Suc m) s'"
proof -
  from choice_mem [OF assms(2)] assms(3) have "choice guests (rand s 0) \<in> set (users w)"
    by auto
  then have "list_ex (\<lambda>u. uid u = uid (choice guests (rand s 0))) (users w)"
    by (rule uid_known)
  with assms show ?thesis
    by (simp add: seed_booking_def create_booking_def booking_loop_def frame_simps
        booking_kwargs_def new_booking_def)
qed

lemma create_bookings_ok:
  assumes "guests \<noteq> []" and "set guests \<subseteq> set (users w)"
    and "list_all (\<lambda>l. list_ex (\<lambda>x. listing_id x = listing_id l) (listings w)) ls"
  shows "\<exists>s'. create_bookings mul dec ls guests n w = Inr s' \<and> booking_loop w (length ls * nat n) s'"
proof -
  have inner: "\<exists>s'. foldM (seed_booking mul dec guests l) (py_range n) s = Inr s'
                 \<and> booking_loop w (m + nat n) s'"
    if "booking_loop w m s" "l \<in> set ls" for l m s
  proof -
    from that(2) assms(3) have "list_ex (\<lambda>x. listing_id x = listing_id l) (listings w)"
      by (simp add: list_all_iff)
    with foldM_count [of "booking_loop w" m s "py_range n" "seed_booking mul dec guests l"] that(1)
      seed_booking_ok [of w _ _ guests l mul] assms(1,2)
    show ?thesis by (simp add: py_range_def)
  qed
  have start: "booking_loop w (0 * nat n) (stdout_write NOTICE ''Creating sample bookings...'' w)"
    by (simp add: booking_loop_def frame_simps)
  have "\<exists>s'. foldM (\<lambda>l. foldM (seed_booking mul dec guests l) (py_range n)) ls
               (stdout_write NOTICE ''Creating sample bookings...'' w) = Inr s'
             \<and> booking_loop w ((0 + length ls) * nat n) s'"
  proof (rule foldM_count [of "\<lambda>j. booking_loop w (j * nat n)" 0, OF start])
    fix j l s assume "booking_loop w (j * nat n) s" "l \<in> set ls"
    from inner [OF this] show "\<exists>s'. foldM (seed_booking mul dec guests l) (py_range n) s = Inr s'
        \<and> booking_loop w (Suc j * nat n) s'"
      by (simp add: add.commute)
  qed
  then show ?thesis
    by (simp add: create_bookings_def)
qed

lemma seed_review_ok:
  assumes "review_loop w m s" and "set guests \<subseteq> set (users w)"
    and "list_ex (\<lambda>x. listing_id x = listing_id l) (listings w)"
  shows "\<exists>s'. seed_review guests l i s = Inr s' \<and> review_loop w (Suc m) s'"
proof (cases "guests = []")
  case True
  with assms(1) show ?thesis
    by (simp add: seed_review_def review_loop_def frame_simps)
next
  case False
  from choice_mem [OF False] assms(2) have "choice guests (rand s 0) \<in> set (users w)"
    by auto
  then have "list_ex (\<lambda>u. uid u = uid (choice guests (rand s 0))) (users w)"
    by (rule uid_known)
  with assms False show ?thesis
    by (simp add: seed_review_def create_review_def review_loop_def frame_simps
        review_kwargs_def new_review_def review_exists_def)
qed

lemma create_reviews_ok:
  assumes "set guests \<subseteq> set (users w)"
    and "list_all (\<lambda>l. list_ex (\<lambda>x. listing_id x = listing_id l) (listings w)) ls"
  shows "\<exists>s'. create_reviews ls guests n w = Inr s' \<and> review_loop w (length ls * nat n) s'"
proof -
  have inner: "\<exists>s'. foldM (seed_review guests l) (py_range n) s = Inr s'
                 \<and> review_loop w (m + nat n) s'"
    if "review_loop w m s" "l \<in> set ls" for l m s
  proof -
    from that(2) assms(2) have "list_ex (\<lambda>x. listing_id x = listing_id l) (listings w)"
      by (simp add: list_all_iff)
    with foldM_count [of "review_loop w" m s "py_range n" "seed_review guests l"] that(1)
      seed_review_ok [of w _ _ guests l] assms(1)
    show ?thesis by (simp add: py_range_def)
  qed
  have start: "review_loop w (0 * nat n) (stdout_write NOTICE ''Creating sample reviews...'' w)"
    by (simp add: review_loop_def frame_simps)
  have "\<exists>s'. foldM (\<lambda>l. foldM (seed_review guests l) (py_range n)) ls
               (stdout_write NOTICE ''Creating sample reviews...'' w) = Inr s'
             \<and> review_loop w ((0 + length ls) * nat n) s'"
  proof (rule foldM_count [of "\<lambda>j. review_loop w (j * nat n)" 0, OF start])
    fix j l s assume "review_loop w (j * nat n) s" "l \<in> set ls"
    from inner [OF this] show "\<exists>s'. foldM (seed_review guests l) (py_range n) s = Inr s'
        \<and> review_loop w (Suc j * nat n) s'"
      by (simp add: add.commute)
  qed
  then show ?thesis
    by (simp add: create_reviews_def)
qed

section \<open>The fallback host\<close>

lemma seed_listings_ok:
  assumes "set us \<subseteq> set (users w)" and "set hs \<subseteq> set (users w)"
  shows "\<exists>W. seed_listings mul dec opts us (w, hs) = Inr W \<and> users W = users w
           \<and> length (listings W) = length (listings w) + length hs * nat (num_listings_per_host opts)
           \<and> list_all (\<lambda>l. host l \<in> uid ` set hs) (drop (length (listings w)) (listings W))
           \<and> length (bookings W) = length (bookings w)
               + (if filter (\<lambda>u. role u = ''guest'') us = [] then 0
                  else length hs * nat (num_listings_per_host opts) * nat (num_bookings_per_listing opts))
           \<and> length (reviews w) \<le> length (reviews W)
           \<and> length (reviews W) \<le> length (reviews w)
               + length hs * nat (num_listings_per_host opts) * nat (num_reviews_per_listing opts)"
proof -
  let ?g = "filter (\<lambda>u. role u = ''guest'') us"
  let ?nl = "num_listings_per_host opts"
  from create_listings_ok [OF assms(2), of dec ?nl] obtain w3 ls where
    cl: "create_listings dec hs ?nl w = Inr (w3, ls)"
    and ll: "listing_loop dec w hs (length hs * nat ?nl) (w3, ls)"
    by (cases "create_listings dec hs ?nl w") auto
  from ll have w3: "users w3 = users w" "bookings w3 = bookings w" "reviews w3 = reviews w"
    "listings w3 = listings w @ map (stored_listing dec) ls" "length ls = length hs * nat ?nl"
    "list_all (\<lambda>l. host l \<in> uid ` set hs) ls"
    by (simp_all add: listing_loop_def)
  have g3: "set ?g \<subseteq> set (users w3)"
    using assms(1) w3(1) by auto
  have fk: "list_all (\<lambda>l. list_ex (\<lambda>x. listing_id x = listing_id l) (listings w3)) ls"
  proof -
    have "list_ex (\<lambda>x. listing_id x = listing_id l) (listings w3)" if "l \<in> set ls" for l
      unfolding list_ex_iff
      by (rule bexI [of _ "stored_listing dec l"]) (simp_all add: stored_listing_fields w3(4) that)
    then show ?thesis
      by (simp add: list_all_iff)
  qed
  have "\<exists>w4. create_bookings mul dec ls ?g (num_bookings_per_listing opts) w3 = Inr w4
          \<and> users w4 = users w3 \<and> listings w4 = listings w3 \<and> reviews w4 = reviews w3
          \<and> length (bookings w4) = length (bookings w3)
               + (if ?g = [] then 0 else length ls * nat (num_bookings_per_listing opts))"
  proof (cases "?g = []")
    case True
    then show ?thesis
      by (simp add: create_bookings_no_guests)
  next
    case False
    from create_bookings_ok [OF False g3 fk, of mul dec "num_bookings_per_listing opts"] False
    show ?thesis
      by (auto simp: booking_loop_def)
  qed
  then obtain w4 where
    cb: "create_bookings mul dec ls ?g (num_bookings_per_listing opts) w3 = Inr w4"
    and w4: "users w4 = users w3" "listings w4 = listings w3" "reviews w4 = reviews w3"
      "length (bookings w4) = length (bookings w3)
               + (if ?g = [] then 0 else length ls * nat (num_bookings_per_listing opts))"
    by blast
  have g4: "set ?g \<subseteq> set (users w4)"
    using g3 w4(1) by simp
  have fk4: "list_all (\<lambda>l. list_ex (\<lambda>x. listing_id x = listing_id l) (listings w4)) ls"
    using fk w4(2) by simp
  from create_reviews_ok [OF g4 fk4, of "num_reviews_per_listing opts"] obtain w5 where
    cr: "create_reviews ls ?g (num_reviews_per_listing opts) w4 = Inr w5"
    and w5: "review_loop w4 (length ls * nat (num_reviews_per_listing opts)) w5"
    by blast
  let ?W = "stdout_write SUCCESS ''Database seeding completed successfully!'' w5"
  have run: "seed_listings mul dec opts us (w, hs) = Inr ?W"
    by (simp add: seed_listings_def seed_bookings_def seed_reviews_def cl cb cr bind_Inr)
  have hl: "list_all (\<lambda>l. host l \<in> uid ` set hs) (map (stored_listing dec) ls)"
    using w3(6) by (simp add: list_all_iff stored_listing_fields)
  from w5 w4 w3(1-5) hl have "users ?W = users w"
    "length (listings ?W) = length (listings w) + length hs * nat ?nl"
    "list_all (\<lambda>l. host l \<in> uid ` set hs) (drop (length (listings w)) (listings ?W))"
    "length (bookings ?W) = length (bookings w)
               + (if ?g = [] then 0
                  else length hs * nat ?nl * nat (num_bookings_per_listing opts))"
    "length (reviews w) \<le> length (reviews ?W)"
    "length (reviews ?W) \<le> length (reviews w)
               + length hs * nat ?nl * nat (num_reviews_per_listing opts)"
    by (simp_all add: review_loop_def stdout_write_def)
  with run show ?thesis by blast
qed

lemma fallback_user_fields:
  "role (fallback_user w) = ''host''" "username (fallback_user w) = ''auto_host''"
  "email (fallback_user w) = ''auto_host@example.com''"
  by (simp_all add: fallback_user_def new_user_def)

lemma fallback_host_creates:
  assumes "\<not> list_ex (\<lambda>v. uq v (fallback_user w)) (users w)"
  shows "fallback_host uq [] w =
           Inr ((stdout_write WARNING ''No hosts created. Creating at least one host for listings.'' w)
                  \<lparr>users := users w @ [fallback_user w]\<rparr>, [fallback_user w])"
  using assms
  by (simp add: fallback_host_def create_user_def fallback_user_def new_user_def stdout_write_def)

lemma create_users_Inr:
  assumes "create_users uq n w = Inr (w1, us)"
  shows "adds_users w w1" and "set us \<subseteq> set (users w1)"
  using create_users_adds [of w uq n] assms by (simp_all add: ends_def)

lemma fallback_run:
  assumes cu: "create_users uq (num_users opts) (prepare opts w) = Inr (w1, us)"
    and nh: "filter (\<lambda>u. role u = ''host'') us = []"
    and nc: "\<not> list_ex (\<lambda>v. uq v (fallback_user w1)) (users w1)"
  shows "\<exists>W. handle mul dec uq opts w = Inr W \<and> users W = users w1 @ [fallback_user w1]
           \<and> length (created_listings opts w W) = nat (num_listings_per_host opts)
           \<and> list_all (\<lambda>l. host l = uid (fallback_user w1)) (created_listings opts w W)
           \<and> length (created_bookings opts w W) =
               (if filter (\<lambda>u. role u = ''guest'') us = [] then 0
                else nat (num_listings_per_host opts) * nat (num_bookings_per_listing opts))
           \<and> length (created_reviews opts w W)
               \<le> nat (num_listings_per_host opts) * nat (num_reviews_per_listing opts)"
proof -
  let ?h = "fallback_user w1"
  let ?w2 = "(stdout_write WARNING ''No hosts created. Creating at least one host for listings.'' w1)
                  \<lparr>users := users w1 @ [?h]\<rparr>"
  from create_users_Inr [OF cu] have a: "adds_users (prepare opts w) w1"
    and us: "set us \<subseteq> set (users w1)" .
  from a have t1: "listings w1 = listings (prepare opts w)" "bookings w1 = bookings (prepare opts w)"
    "reviews w1 = reviews (prepare opts w)"
    by (simp_all add: adds_users_def)
  have t2: "users ?w2 = users w1 @ [?h]" "listings ?w2 = listings w1" "bookings ?w2 = bookings w1"
    "reviews ?w2 = reviews w1"
    by (simp_all add: stdout_write_def)
  have "set us \<subseteq> set (users ?w2)" "set [?h] \<subseteq> set (users ?w2)"
    using us by (auto simp: t2)
  from seed_listings_ok [OF this, of mul dec opts] obtain W where
    W: "seed_listings mul dec opts us (?w2, [?h]) = Inr W" "users W = users ?w2"
      "length (listings W) = length (listings ?w2) + length [?h] * nat (num_listings_per_host opts)"
      "list_all (\<lambda>l. host l \<in> uid ` set [?h]) (drop (length (listings ?w2)) (listings W))"
      "length (bookings W) = length (bookings ?w2)
               + (if filter (\<lambda>u. role u = ''guest'') us = [] then 0
                  else length [?h] * nat (num_listings_per_host opts) * nat (num_bookings_per_listing opts))"
      "length (reviews ?w2) \<le> length (reviews W)"
      "length (reviews W) \<le> length (reviews ?w2)
               + length [?h] * nat (num_listings_per_host opts) * nat (num_reviews_per_listing opts)"
    by blast
  have fb: "fallback_host uq [] w1 = Inr (?w2, [?h])"
    using nc by (rule fallback_host_creates)
  have run: "handle mul dec uq opts w = Inr W"
    by (simp add: handle_def seed_def cu bind_Inr seed_hosts_def nh fb W(1))
  from W(2-7) show ?thesis
    by (intro exI [of _ W]) (simp add: run t1 t2 created_listings_def created_bookings_def
        created_reviews_def)
qed

lemma no_conflict:
  assumes "by_name_or_email uq"
    and "list_all (\<lambda>v. username v \<noteq> username u \<and> email v \<noteq> email u) vs"
  shows "\<not> list_ex (\<lambda>v. uq v u) vs"
  using assms by (auto simp: by_name_or_email_def list_all_iff list_ex_iff)

lemma seed_user_creates:
  assumes "\<not> list_ex (\<lambda>v. email v = user_email i) (users w)"
    and "u = new_user (''user'' @ str_nat i) (user_email i) (''First'' @ str_nat i)
               (''Last'' @ str_nat i) (choice [''guest'', ''host''] (rand w 0)) w"
    and "\<not> list_ex (\<lambda>v. uq v u) (users w)"
  shows "seed_user uq i (w, us) =
           Inr (stdout_write SUCCESS (''Created user: '' @ email u @ '' ('' @ role u @ '')'')
                  ((skip_rand 1 w)\<lparr>users := users w @ [u]\<rparr>), us @ [u])"
proof -
  have "new_user a b c d e (skip_rand 1 w) = new_user a b c d e w" for a b c d e
    by (simp add: new_user_def skip_rand_def)
  with assms show ?thesis
    by (simp add: seed_user_def create_user_def skip_rand_def)
qed

lemma str_nat_0: "str_nat 0 = ''0''"
  by code_simp

lemma str_nat_1: "str_nat 1 = ''1''"
  by code_simp

lemma str_int_2: "str_int 2 = ''2''"
  by code_simp

lemma str_nat_Suc_0: "str_nat (Suc 0) = ''1''"
  by code_simp

lemmas small_names = user_email_def str_nat_0 str_nat_1 str_nat_Suc_0 str_int_2

lemma prepare_rand: "rand (prepare opts w) = rand w"
  by (simp add: prepare_def clear_existing_tables stdout_write_def)

lemma two_guests_run:
  assumes uq: "by_name_or_email uq" and fn: "fresh_names (prepare (opts_of c 2 1 1 1) w)"
    and r0: "choice [''guest'', ''host''] (rand w 0) = ''guest''"
    and r1: "choice [''guest'', ''host''] (rand w 1) = ''guest''"
  shows "\<exists>W. handle mul dec uq (opts_of c 2 1 1 1) w = Inr W
           \<and> map username (created_users (opts_of c 2 1 1 1) w W) = [''user0'', ''user1'', ''auto_host'']
           \<and> map role (created_users (opts_of c 2 1 1 1) w W) = [''guest'', ''guest'', ''host'']
           \<and> length (created_listings (opts_of c 2 1 1 1) w W) = 1
           \<and> length (created_bookings (opts_of c 2 1 1 1) w W) = 1
           \<and> length (created_reviews (opts_of c 2 1 1 1) w W) \<le> 1"
proof -
  let ?O = "opts_of c 2 1 1 1"
  define w0 where "w0 = prepare ?O w"
  define wA where "wA = stdout_write NOTICE (''Creating '' @ str_int 2 @ '' sample users...'') w0"
  define u0 where "u0 = new_user (''user'' @ str_nat 0) (user_email 0) (''First'' @ str_nat 0)
               (''Last'' @ str_nat 0) (choice [''guest'', ''host''] (rand wA 0)) wA"
  define wB where "wB = stdout_write SUCCESS (''Created user: '' @ email u0 @ '' ('' @ role u0 @ '')'')
                  ((skip_rand 1 wA)\<lparr>users := users wA @ [u0]\<rparr>)"
  define u1 where "u1 = new_user (''user'' @ str_nat 1) (user_email 1) (''First'' @ str_nat 1)
               (''Last'' @ str_nat 1) (choice [''guest'', ''host''] (rand wB 0)) wB"
  define wC where "wC = stdout_write SUCCESS (''Created user: '' @ email u1 @ '' ('' @ role u1 @ '')'')
                  ((skip_rand 1 wB)\<lparr>users := users wB @ [u1]\<rparr>)"
  have old: "list_all (\<lambda>v. username v \<notin> set [''user0'', ''user1'', ''auto_host''] \<and>
                    email v \<notin> set [''user0@example.com'', ''user1@example.com'',
                                     ''auto_host@example.com'']) (users w0)"
    using fn by (simp add: fresh_names_def w0_def)
  have usA: "users wA = users w0" and rA: "rand wA = rand w"
    by (simp_all add: wA_def stdout_write_def w0_def prepare_rand)
  have f0: "username u0 = ''user0''" "email u0 = ''user0@example.com''" "role u0 = ''guest''"
    by (simp_all add: u0_def new_user_fields small_names rA r0)
  have usB: "users wB = users w0 @ [u0]" and rB: "rand wB 0 = rand w 1"
    by (simp_all add: wB_def stdout_write_def skip_rand_def usA rA)
  have r1': "choice [''guest'', ''host''] (rand w (Suc 0)) = ''guest''"
    using r1 by simp
  have f1: "username u1 = ''user1''" "email u1 = ''user1@example.com''" "role u1 = ''guest''"
    by (simp_all add: u1_def new_user_fields small_names rB r1')
  have usC: "users wC = users w0 @ [u0, u1]"
    by (simp add: wC_def stdout_write_def skip_rand_def usB)
  have s0: "seed_user uq 0 (wA, []) = Inr (wB, [u0])"
  proof -
    have a: "\<not> list_ex (\<lambda>v. email v = user_email 0) (users wA)"
      using old by (auto simp: usA small_names list_all_iff list_ex_iff)
    have b: "\<not> list_ex (\<lambda>v. uq v u0) (users wA)"
      using old by (intro no_conflict [OF uq]) (auto simp: usA f0 list_all_iff)
    from seed_user_creates [where i = 0 and w = wA and u = u0 and uq = uq and us = "[]", OF a u0_def b]
    show ?thesis
      by (simp add: wB_def)
  qed
  have s1: "seed_user uq 1 (wB, [u0]) = Inr (wC, [u0, u1])"
  proof -
    have a: "\<not> list_ex (\<lambda>v. email v = user_email 1) (users wB)"
      using old by (auto simp: usB small_names list_all_iff list_ex_iff f0)
    have b: "\<not> list_ex (\<lambda>v. uq v u1) (users wB)"
      using old by (intro no_conflict [OF uq]) (auto simp: usB f0 f1 list_all_iff)
    from seed_user_creates [where i = 1 and w = wB and u = u1 and uq = uq and us = "[u0]", OF a u1_def b]
    show ?thesis
      by (simp add: wC_def)
  qed
  have r2: "py_range 2 = [0, 1]"
    by (simp add: py_range_def upt_rec)
  have cu: "create_users uq (num_users ?O) (prepare ?O w) = Inr (wC, [u0, u1])"
    using s0 s1 by (simp add: create_users_def opts_of_def r2 wA_def w0_def)
  have nh: "filter (\<lambda>u. role u = ''host'') [u0, u1] = []"
    by (simp add: f0 f1)
  have nc: "\<not> list_ex (\<lambda>v. uq v (fallback_user wC)) (users wC)"
    using old by (intro no_conflict [OF uq])
      (auto simp: usC f0 f1 fallback_user_fields list_all_iff)
  from fallback_run [OF cu nh nc, of mul dec] obtain W where
    W: "handle mul dec uq ?O w = Inr W" "users W = users wC @ [fallback_user wC]"
      "length (created_listings ?O w W) = nat (num_listings_per_host ?O)"
      "length (created_bookings ?O w W) =
         (if filter (\<lambda>u. role u = ''guest'') [u0, u1] = [] then 0
          else nat (num_listings_per_host ?O) * nat (num_bookings_per_listing ?O))"
      "length (created_reviews ?O w W)
         \<le> nat (num_listings_per_host ?O) * nat (num_reviews_per_listing ?O)"
    by blast
  have cr: "created_users ?O w W = [u0, u1, fallback_user wC]"
    by (simp add: created_users_def W(2) usC w0_def [symmetric])
  have n: "nat (num_listings_per_host ?O) = 1" "nat (num_bookings_per_listing ?O) = 1"
    "nat (num_reviews_per_listing ?O) = 1"
    by (simp_all add: opts_of_def)
  from W(3-5) show ?thesis
    by (intro exI [of _ W]) (simp add: W(1) cr f0 f1 fallback_user_fields n)
qed

text \<open>
  Where the user table accepts the fallback host. When the user loop has completed with
  no host among its users and no stored user forbids the insertion of auto\_host, the
  command creates exactly one more user, auto\_host with role host, and the run completes
  with num\_listings\_per\_host listings, all owned by that user. With two users, one
  listing per host, one booking and one review per listing, both users drawn as guests,
  on a user table that holds none of the three users and whose uniqueness rules are on
  usernames and emails, the run completes and has created the users user0 and user1 as
  guests and auto\_host as host, exactly one listing, exactly one booking and at most one
  review.
\<close>

lemma fallback_host_feeds_listings:
  "(create_users uq (num_users opts) (prepare opts w) = Inr (w1, us)
      \<and> filter (\<lambda>u. role u = ''host'') us = []
      \<and> \<not> list_ex (\<lambda>v. uq v (fallback_user w1)) (users w1)
    \<longrightarrow> role (fallback_user w1) = ''host''
      \<and> (\<exists>W. handle mul dec uq opts w = Inr W \<and> users W = users w1 @ [fallback_user w1]
             \<and> length (created_listings opts w W) = nat (num_listings_per_host opts)
             \<and> list_all (\<lambda>l. host l = uid (fallback_user w1)) (created_listings opts w W)))
   \<and> (by_name_or_email uq \<and> fresh_names (prepare (opts_of c 2 1 1 1) w')
      \<and> choice [''guest'', ''host''] (rand w' 0) = ''guest''
      \<and> choice [''guest'', ''host''] (rand w' 1) = ''guest''
    \<longrightarrow> (\<exists>W. handle mul dec uq (opts_of c 2 1 1 1) w' = Inr W
           \<and> map username (created_users (opts_of c 2 1 1 1) w' W) = [''user0'', ''user1'', ''auto_host'']
           \<and> map role (created_users (opts_of c 2 1 1 1) w' W) = [''guest'', ''guest'', ''host'']
           \<and> length (created_listings (opts_of c 2 1 1 1) w' W) = 1
           \<and> length (created_bookings (opts_of c 2 1 1 1) w' W) = 1
           \<and> length (created_reviews (opts_of c 2 1 1 1) w' W) \<le> 1))"
proof (intro conjI impI)
  assume a: "create_users uq (num_users opts) (prepare opts w) = Inr (w1, us)
      \<and> filter (\<lambda>u. role u = ''host'') us = []
      \<and> \<not> list_ex (\<lambda>v. uq v (fallback_user w1)) (users w1)"
  show "role (fallback_user w1) = ''host''"
    by (rule fallback_user_fields)
  from a fallback_run [of uq opts w w1 us mul dec]
  show "\<exists>W. handle mul dec uq opts w = Inr W \<and> users W = users w1 @ [fallback_user w1]
             \<and> length (created_listings opts w W) = nat (num_listings_per_host opts)
             \<and> list_all (\<lambda>l. host l = uid (fallback_user w1)) (created_listings opts w W)"
    by blast
next
  assume "by_name_or_email uq \<and> fresh_names (prepare (opts_of c 2 1 1 1) w')
      \<and> choice [''guest'', ''host''] (rand w' 0) = ''guest''
      \<and> choice [''guest'', ''host''] (rand w' 1) = ''guest''"
  then show "\<exists>W. handle mul dec uq (opts_of c 2 1 1 1) w' = Inr W
           \<and> map username (created_users (opts_of c 2 1 1 1) w' W) = [''user0'', ''user1'', ''auto_host'']
           \<and> map role (created_users (opts_of c 2 1 1 1) w' W) = [''guest'', ''guest'', ''host'']
           \<and> length (created_listings (opts_of c 2 1 1 1) w' W) = 1
           \<and> length (created_bookings (opts_of c 2 1 1 1) w' W) = 1
           \<and> length (created_reviews (opts_of c 2 1 1 1) w' W) \<le> 1"
    using two_guests_run [of uq c w' mul dec] by blast
qed

text \<open>
  C3, at the failing input. A run with no users on an empty database finds no host and
  creates the fallback host auto\_host, with one listing. On the database it leaves, the
  run of the scenario (two users, one listing per host, one booking and one review per
  listing, no clear flag, both users drawn as guests) creates user0 and user1 as guests,
  finds no host among them, and creates auto\_host without looking it up: usernames being
  unique, the insertion raises IntegrityError. The run is aborted before the listings:
  it creates no fallback host, no listing, no booking and no review.
\<close>

theorem fallback_host_raises_where_auto_host_exists:
  "succeeded (handle times_nights quantize same_username (opts_of False 0 1 1 1) (empty_world 100))
   \<and> map username (users (final (handle times_nights quantize same_username (opts_of False 0 1 1 1)
         (empty_world 100)))) = [''auto_host'']
   \<and> raised (handle times_nights quantize same_username (opts_of False 2 1 1 1)
         (final (handle times_nights quantize same_username (opts_of False 0 1 1 1) (empty_world 100))))
       = Some IntegrityError
   \<and> map (\<lambda>u. (username u, role u))
        (created_users (opts_of False 2 1 1 1)
          (final (handle times_nights quantize same_username (opts_of False 0 1 1 1) (empty_world 100)))
          (final (handle times_nights quantize same_username (opts_of False 2 1 1 1)
             (final (handle times_nights quantize same_username (opts_of False 0 1 1 1)
                (empty_world 100))))))
       = [(''user0'', ''guest''), (''user1'', ''guest'')]
   \<and> length (created_listings (opts_of False 2 1 1 1)
          (final (handle times_nights quantize same_username (opts_of False 0 1 1 1) (empty_world 100)))
          (final (handle times_nights quantize same_username (opts_of False 2 1 1 1)
             (final (handle times_nights quantize same_username (opts_of False 0 1 1 1)
                (empty_world 100)))))) = 0
   \<and> length (created_bookings (opts_of False 2 1 1 1)
          (final (handle times_nights quantize same_username (opts_of False 0 1 1 1) (empty_world 100)))
          (final (handle times_nights quantize same_username (opts_of False 2 1 1 1)
             (final (handle times_nights quantize same_username (opts_of False 0 1 1 1)
                (empty_world 100)))))) = 0
   \<and> length (created_reviews (opts_of False 2 1 1 1)
          (final (handle times_nights quantize same_username (opts_of False 0 1 1 1) (empty_world 100)))
          (final (handle times_nights quantize same_username (opts_of False 2 1 1 1)
             (final (handle times_nights quantize same_username (opts_of False 0 1 1 1)
                (empty_world 100)))))) = 0"
  by code_simp

section \<open>A second run\<close>

text \<open>The user loop looks the email up and reuses the row that has it.\<close>

lemma seed_user_reuses:
  assumes "filter (\<lambda>u. email u = user_email i) (users w) = [u]"
  shows "seed_user uq i (w, us) =
           Inr (stdout_write WARNING (''User '' @ user_email i @ '' already exists, skipping creation.'') w,
                us @ [u])"
proof -
  from assms have "u \<in> set (filter (\<lambda>u. email u = user_email i) (users w))"
    by simp
  then have "list_ex (\<lambda>u. email u = user_email i) (users w)"
    by (auto simp: list_ex_iff)
  with assms show ?thesis
    by (simp add: seed_user_def get_user_by_email_def)
qed


section \<open>The read shape of a listing\<close>

lemma readable_UserSerializer:
  "readable_fields UserSerializer =
     [\<lparr>field_name = ''id'', field_source = ''id'', field_class = ModelField,
       read_only = True, write_only = False, required = False\<rparr>,
      \<lparr>field_name = ''first_name'', field_source = ''first_name'', field_class = ModelField,
       read_only = False, write_only = False, required = False\<rparr>,
      \<lparr>field_name = ''last_name'', field_source = ''last_name'', field_class = ModelField,
       read_only = False, write_only = False, required = False\<rparr>,
      \<lparr>field_name = ''email'', field_source = ''email'', field_class = ModelField,
       read_only = True, write_only = False, required = False\<rparr>]"
  by code_simp

lemma readable_ReviewSerializer:
  "readable_fields ReviewSerializer =
     [\<lparr>field_name = ''review_id'', field_source = ''review_id'', field_class = ModelField,
       read_only = True, write_only = False, required = False\<rparr>,
      \<lparr>field_name = ''property'', field_source = ''property'', field_class = RelatedField,
       read_only = True, write_only = False, required = False\<rparr>,
      \<lparr>field_name = ''user'', field_source = ''user'', field_class = NestedSerializer,
       read_only = True, write_only = False, required = False\<rparr>,
      \<lparr>field_name = ''rating'', field_source = ''rating'', field_class = ModelField,
       read_only = False, write_only = False, required = True\<rparr>,
      \<lparr>field_name = ''comment'', field_source = ''comment'', field_class = ModelField,
       read_only = False, write_only = False, required = False\<rparr>,
      \<lparr>field_name = ''created_at'', field_source = ''created_at'', field_class = ModelField,
       read_only = True, write_only = False, required = False\<rparr>]"
  by code_simp

lemma user_data:
  "to_representation UserSerializer (user_attribute u) =
     Inr (JObj [(''id'', JKey (uid u)), (''first_name'', JStr (first_name u)),
                (''last_name'', JStr (last_name u)), (''email'', JStr (email u))])"
  by (simp add: to_representation_def readable_UserSerializer user_attribute_def)

lemma related_user_data:
  assumes "user_of k w = Some u"
  shows "related_user w k =
     Inr (JObj [(''id'', JKey (uid u)), (''first_name'', JStr (first_name u)),
                (''last_name'', JStr (last_name u)), (''email'', JStr (email u))])"
  using assms by (simp add: related_user_def user_data)

lemma review_data:
  assumes "user_of (review_user r) w = Some u"
  shows "to_representation ReviewSerializer (review_attribute w r) =
     Inr (JObj [(''review_id'', JKey (review_id r)), (''property'', JKey (review_property r)),
                (''user'', JObj [(''id'', JKey (uid u)), (''first_name'', JStr (first_name u)),
                                (''last_name'', JStr (last_name u)), (''email'', JStr (email u))]),
                (''rating'', JInt (rating r)), (''comment'', JStr (comment r)),
                (''created_at'', JInt (review_created_at r))])"
  using assms
  by (simp add: to_representation_def readable_ReviewSerializer review_attribute_def
      related_user_data)

lemma many_map:
  assumes "\<And>x. x \<in> set xs \<Longrightarrow> data x = Inr (g x)"
  shows "many data xs = Inr (JList (map g xs))"
proof -
  have "foldM (\<lambda>x js. case data x of Inl e \<Rightarrow> Inl e | Inr j \<Rightarrow> Inr (js @ [j])) xs acc
        = Inr (acc @ map g xs)" for acc
    using assms by (induction xs arbitrary: acc) simp_all
  then show ?thesis
    by (simp add: many_def)
qed

lemma order_by_desc_mset: "mset (order_by_desc key xs) = mset xs"
  by (simp add: order_by_desc_def)

lemma order_by_desc_sorted:
  "sorted_wrt (\<lambda>a b. key b \<le> key a) (order_by_desc key xs)"
proof -
  have "sorted (map (\<lambda>x. - key x) (sort_key (\<lambda>x. - key x) xs))"
    by (rule sorted_sort_key)
  then show ?thesis
    by (simp add: order_by_desc_def sorted_map)
qed

lemma readable_ListingSerializer:
  "readable_fields ListingSerializer =
     [\<lparr>field_name = ''listing_id'', field_source = ''listing_id'', field_class = ModelField,
       read_only = True, write_only = False, required = False\<rparr>,
      \<lparr>field_name = ''host'', field_source = ''host'', field_class = NestedSerializer,
       read_only = True, write_only = False, required = False\<rparr>,
      \<lparr>field_name = ''title'', field_source = ''title'', field_class = ModelField,
       read_only = False, write_only = False, required = True\<rparr>,
      \<lparr>field_name = ''description'', field_source = ''description'', field_class = ModelField,
       read_only = False, write_only = False, required = True\<rparr>,
      \<lparr>field_name = ''address'', field_source = ''address'', field_class = ModelField,
       read_only = False, write_only = False, required = True\<rparr>,
      \<lparr>field_name = ''city'', field_source = ''city'', field_class = ModelField,
       read_only = False, write_only = False, required = True\<rparr>,
      \<lparr>field_name = ''country'', field_source = ''country'', field_class = ModelField,
       read_only = False, write_only = False, required = True\<rparr>,
      \<lparr>field_name = ''price_per_night'', field_source = ''price_per_night'',
       field_class = ModelField, read_only = False, write_only = False, required = True\<rparr>,
      \<lparr>field_name = ''property_type'', field_source = ''property_type'',
       field_class = ModelField, read_only = False, write_only = False, required = False\<rparr>,
      \<lparr>field_name = ''num_bedrooms'', field_source = ''num_bedrooms'', field_class = ModelField,
       read_only = False, write_only = False, required = True\<rparr>,
      \<lparr>field_name = ''num_bathrooms'', field_source = ''num_bathrooms'',
       field_class = ModelField, read_only = False, write_only = False, required = True\<rparr>,
      \<lparr>field_name = ''max_guests'', field_source = ''max_guests'', field_class = ModelField,
       read_only = False, write_only = False, required = True\<rparr>,
      \<lparr>field_name = ''amenities'', field_source = ''amenities'', field_class = ModelField,
       read_only = False, write_only = False, required = False\<rparr>,
      \<lparr>field_name = ''created_at'', field_source = ''created_at'', field_class = ModelField,
       read_only = True, write_only = False, required = False\<rparr>,
      \<lparr>field_name = ''updated_at'', field_source = ''updated_at'', field_class = ModelField,
       read_only = True, write_only = False, required = False\<rparr>,
      \<lparr>field_name = ''reviews'', field_source = ''get_reviews'', field_class = MethodField,
       read_only = True, write_only = False, required = False\<rparr>]"
  by code_simp

lemma listing_data:
  assumes "user_of (host l) w = Some h" and "get_reviews w l = Inr rv"
  shows "\<exists>kvs. to_representation ListingSerializer (listing_attribute w l) = Inr (JObj kvs)
           \<and> map_of kvs ''reviews'' = Some rv"
  using assms
  by (simp add: to_representation_def readable_ListingSerializer listing_attribute_def
      related_user_data)

lemma get_reviews_data:
  assumes "list_all (\<lambda>r. user_of (review_user r) w \<noteq> None) (reviews w)"
  shows "get_reviews w l =
           Inr (JList (map (\<lambda>r. projr (to_representation ReviewSerializer (review_attribute w r)))
                        (order_by_desc review_created_at (related_reviews w l))))"
    (is "_ = Inr (JList (map ?g ?rows))")
  unfolding get_reviews_def
proof (rule many_map)
  fix r assume "r \<in> set ?rows"
  then have "r \<in># mset ?rows" by simp
  then have "r \<in> set (reviews w)"
    by (simp add: order_by_desc_mset related_reviews_def)
  with assms obtain u where "user_of (review_user r) w = Some u"
    by (auto simp: list_all_iff)
  from review_data [OF this]
  show "to_representation ReviewSerializer (review_attribute w r) = Inr (?g r)"
    by simp
qed

text \<open>
  C7. On a database whose foreign keys have their targets (the listing's host and the
  users of the reviews are rows of the user table), the read shape of a listing is an
  object whose entry reviews is a list, and that list is, element by element, the read
  shapes of rows that are exactly the reviews of the listing (each once, none of another
  listing) in an order in which created\_at never increases: the most recent first.
\<close>

theorem listing_read_shape_embeds_reviews_newest_first:
  assumes "user_of (host l) w \<noteq> None"
    and "list_all (\<lambda>r. user_of (review_user r) w \<noteq> None) (reviews w)"
  shows "\<exists>kvs js rows.
           to_representation ListingSerializer (listing_attribute w l) = Inr (JObj kvs)
         \<and> map_of kvs ''reviews'' = Some (JList js)
         \<and> mset rows = mset (filter (\<lambda>r. review_property r = listing_id l) (reviews w))
         \<and> sorted_wrt (\<lambda>a b. review_created_at b \<le> review_created_at a) rows
         \<and> map Inr js = map (\<lambda>r. to_representation ReviewSerializer (review_attribute w r)) rows
         \<and> map (lookup ''review_id'') js = map (\<lambda>r. Some (JKey (review_id r))) rows
         \<and> map (lookup ''created_at'') js = map (\<lambda>r. Some (JInt (review_created_at r))) rows"
proof -
  let ?rows = "order_by_desc review_created_at (related_reviews w l)"
  let ?g = "\<lambda>r. projr (to_representation ReviewSerializer (review_attribute w r))"
  from assms(1) obtain h where h: "user_of (host l) w = Some h"
    by auto
  have each: "\<exists>u. user_of (review_user r) w = Some u" if "r \<in> set ?rows" for r
  proof -
    from that have "r \<in># mset ?rows" by simp
    then have "r \<in> set (reviews w)"
      by (simp add: order_by_desc_mset related_reviews_def)
    with assms(2) show ?thesis
      by (auto simp: list_all_iff)
  qed
  from listing_data [OF h get_reviews_data [OF assms(2)]] obtain kvs where
    kvs: "to_representation ListingSerializer (listing_attribute w l) = Inr (JObj kvs)"
      "map_of kvs ''reviews'' = Some (JList (map ?g ?rows))"
    by blast
  have m: "mset ?rows = mset (filter (\<lambda>r. review_property r = listing_id l) (reviews w))"
    by (simp add: order_by_desc_mset related_reviews_def)
  have s: "sorted_wrt (\<lambda>a b. review_created_at b \<le> review_created_at a) ?rows"
    by (rule order_by_desc_sorted)
  have one: "Inr (?g r) = to_representation ReviewSerializer (review_attribute w r)
             \<and> lookup ''review_id'' (?g r) = Some (JKey (review_id r))
             \<and> lookup ''created_at'' (?g r) = Some (JInt (review_created_at r))"
    if "r \<in> set ?rows" for r
  proof -
    from each [OF that] obtain u where "user_of (review_user r) w = Some u"
      by blast
    from review_data [OF this] show ?thesis
      by (simp add: lookup_def)
  qed
  have d: "map Inr (map ?g ?rows)
           = map (\<lambda>r. to_representation ReviewSerializer (review_attribute w r)) ?rows"
    using one by simp
  have i: "map (lookup ''review_id'') (map ?g ?rows) = map (\<lambda>r. Some (JKey (review_id r))) ?rows"
    using one by simp
  have c: "map (lookup ''created_at'') (map ?g ?rows)
           = map (\<lambda>r. Some (JInt (review_created_at r))) ?rows"
    using one by simp
  from kvs m s d i c show ?thesis
    by blast
qed

theorem listing_read_shape_embeds_reviews_newest_first_witness:
  "user_of (host (sample_listing 1 1)) review_world \<noteq> None
   \<and> list_all (\<lambda>r. user_of (review_user r) review_world \<noteq> None) (reviews review_world)
   \<and> map review_id (filter (\<lambda>r. review_property r = listing_id (sample_listing 1 1))
                       (reviews review_world)) = [1, 3, 4]
   \<and> (\<exists>kvs js rows.
         to_representation ListingSerializer (listing_attribute review_world (sample_listing 1 1))
           = Inr (JObj kvs)
       \<and> map_of kvs ''reviews'' = Some (JList js)
       \<and> mset rows = mset (filter (\<lambda>r. review_property r = listing_id (sample_listing 1 1))
                              (reviews review_world))
       \<and> sorted_wrt (\<lambda>a b. review_created_at b \<le> review_created_at a) rows
       \<and> map (lookup ''review_id'') js = map (\<lambda>r. Some (JKey (review_id r))) rows
       \<and> map (lookup ''created_at'') js = map (\<lambda>r. Some (JInt (review_created_at r))) rows)
   \<and> map (map (lookup ''created_at''))
        (case lookup ''reviews''
                (projr (to_representation ListingSerializer
                          (listing_attribute review_world (sample_listing 1 1)))) of
           Some (JList js) \<Rightarrow> [js] | _ \<Rightarrow> [])
       = [[Some (JInt 9), Some (JInt 5), Some (JInt 5)]]"
proof -
  have h1: "user_of (host (sample_listing 1 1)) review_world \<noteq> None"
    by code_simp
  have h2: "list_all (\<lambda>r. user_of (review_user r) review_world \<noteq> None) (reviews review_world)"
    by code_simp
  have e1: "map review_id (filter (\<lambda>r. review_property r = listing_id (sample_listing 1 1))
                       (reviews review_world)) = [1, 3, 4]"
    by code_simp
  have e2: "map (map (lookup ''created_at''))
        (case lookup ''reviews''
                (projr (to_representation ListingSerializer
                          (listing_attribute review_world (sample_listing 1 1)))) of
           Some (JList js) \<Rightarrow> [js] | _ \<Rightarrow> [])
       = [[Some (JInt 9), Some (JInt 5), Some (JInt (5::int))]]"
    by code_simp
  from listing_read_shape_embeds_reviews_newest_first [OF h1 h2] h1 h2 e1 e2
  show ?thesis
    by blast
qed

end
